theory Spec2Isabelle
  imports Complex_Main "HOL-Library.Word" "HOL-Library.AList" "HOL-Library.Multiset"
begin

section \<open>Python values and exceptions\<close>

text \<open>
  The program is \<^verbatim>\<open>src/datamodel.py\<close>. Strings are \<open>string\<close> (or \<open>pystr\<close>,
  below, where encoding matters), byte strings are lists of 8-bit words, a raised
  exception is a value of type \<open>error\<close>. The dictionaries built
  by the \<^verbatim>\<open>to_dict\<close> methods hold Python primitives only; they are values of
  \<open>pyval\<close>, a dictionary being the list of its items in insertion order.
\<close>

type_synonym byte = "8 word"

datatype error =
  ValueError string | KeyError string | TypeError string | UnicodeEncodeError string

datatype pyval =
    PyNone
  | PyStr string
  | PyInt int
  | PyFloat real
  | PyList "pyval list"
  | PyTuple "pyval list"
  | PyDict "(string \<times> pyval) list"

type_synonym pydict = "(string \<times> pyval) list"

text \<open>Truth value of an object, as tested by \<^verbatim>\<open>if x\<close>.\<close>

fun truthy :: "pyval \<Rightarrow> bool" where
  "truthy PyNone = False"
| "truthy (PyStr s) = (s \<noteq> [])"
| "truthy (PyInt i) = (i \<noteq> 0)"
| "truthy (PyFloat x) = (x \<noteq> 0)"
| "truthy (PyList xs) = (xs \<noteq> [])"
| "truthy (PyTuple xs) = (xs \<noteq> [])"
| "truthy (PyDict d) = (d \<noteq> [])"

text \<open>\<^verbatim>\<open>data[k]\<close>, \<^verbatim>\<open>data.get(k)\<close> and \<^verbatim>\<open>data.get(k, default)\<close>.\<close>

definition getitem :: "pydict \<Rightarrow> string \<Rightarrow> error + pyval" where
  "getitem d k = (case map_of d k of None \<Rightarrow> Inl (KeyError k) | Some v \<Rightarrow> Inr v)"

definition get_default :: "pydict \<Rightarrow> string \<Rightarrow> pyval \<Rightarrow> pyval" where
  "get_default d k dflt = (case map_of d k of None \<Rightarrow> dflt | Some v \<Rightarrow> v)"

definition get :: "pydict \<Rightarrow> string \<Rightarrow> pyval" where
  "get d k = get_default d k PyNone"

text \<open>Sequencing of computations that may raise: the first exception wins.\<close>

definition ebind :: "error + 'a \<Rightarrow> ('a \<Rightarrow> error + 'b) \<Rightarrow> error + 'b" where
  "ebind m f = (case m of Inl e \<Rightarrow> Inl e | Inr x \<Rightarrow> f x)"

fun emap :: "('a \<Rightarrow> error + 'b) \<Rightarrow> 'a list \<Rightarrow> error + 'b list" where
  "emap f [] = Inr []"
| "emap f (x # xs) = ebind (f x) (\<lambda>y. ebind (emap f xs) (\<lambda>ys. Inr (y # ys)))"

text \<open>
  The record fields are typed, so a dictionary entry of another shape than the one
  \<^verbatim>\<open>to_dict\<close> writes has no image in a record; reading one is reported as a
  \<open>TypeError\<close>.
\<close>

definition as_str :: "pyval \<Rightarrow> error + string" where
  "as_str v = (case v of PyStr s \<Rightarrow> Inr s | _ \<Rightarrow> Inl (TypeError ''str expected''))"

definition as_opt_str :: "pyval \<Rightarrow> error + string option" where
  "as_opt_str v =
     (case v of PyNone \<Rightarrow> Inr None | PyStr s \<Rightarrow> Inr (Some s)
      | _ \<Rightarrow> Inl (TypeError ''str or None expected''))"

definition as_int :: "pyval \<Rightarrow> error + int" where
  "as_int v = (case v of PyInt i \<Rightarrow> Inr i | _ \<Rightarrow> Inl (TypeError ''int expected''))"

definition as_float :: "pyval \<Rightarrow> error + real" where
  "as_float v = (case v of PyFloat x \<Rightarrow> Inr x | _ \<Rightarrow> Inl (TypeError ''float expected''))"

definition as_dict :: "pyval \<Rightarrow> error + pydict" where
  "as_dict v = (case v of PyDict d \<Rightarrow> Inr d | _ \<Rightarrow> Inl (TypeError ''dict expected''))"

text \<open>The items a \<^verbatim>\<open>for\<close> loop, a comprehension or \<^verbatim>\<open>tuple(...)\<close> draws from an object.\<close>

definition iterate :: "pyval \<Rightarrow> error + pyval list" where
  "iterate v =
     (case v of
        PyList xs \<Rightarrow> Inr xs
      | PyTuple xs \<Rightarrow> Inr xs
      | PyStr s \<Rightarrow> Inr (map (\<lambda>c. PyStr [c]) s)
      | PyDict d \<Rightarrow> Inr (map (\<lambda>kv. PyStr (fst kv)) d)
      | _ \<Rightarrow> Inl (TypeError ''object is not iterable''))"

definition as_str_list :: "pyval \<Rightarrow> error + string list" where
  "as_str_list v =
     (case v of PyList xs \<Rightarrow> emap as_str xs | _ \<Rightarrow> Inl (TypeError ''list expected''))"

section \<open>The standard library\<close>

text \<open>
  The program calls \<^verbatim>\<open>datetime\<close>, \<^verbatim>\<open>base64\<close>, \<^verbatim>\<open>hashlib\<close>, \<^verbatim>\<open>secrets\<close> and
  \<^verbatim>\<open>random\<close>. Their code is not part of the repository: the functions of the first
  three are parameters, collected in the record \<open>pylib\<close> over an arbitrary type
  \<open>'dt\<close> of timestamps. A failing parse (\<^verbatim>\<open>ValueError\<close>) is \<open>None\<close>. Timestamp
  arithmetic is total: the end of the library's calendar is not modelled. The SHA-256
  digest is a 256-bit word, whatever function computes it.
\<close>

record 'dt pylib =
  isoformat :: "'dt \<Rightarrow> string"
  fromisoformat :: "string \<Rightarrow> 'dt option"
  strftime_ymd :: "'dt \<Rightarrow> string"
  plus_days :: "'dt \<Rightarrow> nat \<Rightarrow> 'dt"
  b64encode :: "byte list \<Rightarrow> string"
  b64decode :: "string \<Rightarrow> byte list option"
  sha256 :: "string \<Rightarrow> 256 word"

text \<open>
  What the round trip of a snapshot needs from the library: parsing inverts printing,
  for timestamps and for base64, and the printed forms of a timestamp and of a
  non-empty byte string are non-empty strings.
\<close>

definition library_contract :: "'dt pylib \<Rightarrow> bool" where
  "library_contract L \<longleftrightarrow>
     (\<forall>d. fromisoformat L (isoformat L d) = Some d) \<and>
     (\<forall>d. isoformat L d \<noteq> []) \<and>
     (\<forall>b. b64decode L (b64encode L b) = Some b) \<and>
     (\<forall>b. b \<noteq> [] \<longrightarrow> b64encode L b \<noteq> [])"

text \<open>\<^verbatim>\<open>datetime.fromisoformat(v)\<close> and \<^verbatim>\<open>base64.b64decode(v)\<close> on a dictionary entry.\<close>

definition parse_datetime :: "'dt pylib \<Rightarrow> pyval \<Rightarrow> error + 'dt" where
  "parse_datetime L v =
     (case v of
        PyStr s \<Rightarrow>
          (case fromisoformat L s of
             None \<Rightarrow> Inl (ValueError (''Invalid isoformat string: '' @ s))
           | Some d \<Rightarrow> Inr d)
      | _ \<Rightarrow> Inl (TypeError ''fromisoformat: argument must be str''))"

definition decode_bytes :: "'dt pylib \<Rightarrow> pyval \<Rightarrow> error + byte list" where
  "decode_bytes L v =
     (case v of
        PyStr s \<Rightarrow>
          (case b64decode L s of
             None \<Rightarrow> Inl (ValueError ''Incorrect padding'')
           | Some b \<Rightarrow> Inr b)
      | _ \<Rightarrow> Inl (TypeError ''b64decode: argument must be str''))"

text \<open>
  Hexadecimal text of the \<open>n\<close> low nibbles of a word, most significant first:
  \<^verbatim>\<open>hexdigest()\<close> of a 32-byte digest, \<^verbatim>\<open>secrets.token_hex(16)\<close> of 16 random bytes.
\<close>

definition hexdigit :: "nat \<Rightarrow> char" where
  "hexdigit n = ''0123456789abcdef'' ! (n mod 16)"

definition hex_of_word :: "nat \<Rightarrow> 'a::len word \<Rightarrow> string" where
  "hex_of_word n w = map (\<lambda>i. hexdigit (unat (drop_bit (4 * i) w))) (rev [0..<n])"

definition hexdigest :: "256 word \<Rightarrow> string" where
  "hexdigest w = hex_of_word 64 w"

definition token_hex16 :: "128 word \<Rightarrow> string" where
  "token_hex16 w = hex_of_word 32 w"

text \<open>\<^verbatim>\<open>str.lower()\<close> and \<^verbatim>\<open>str.capitalize()\<close>, on ASCII letters.\<close>

definition lower_char :: "char \<Rightarrow> char" where
  "lower_char c =
     (case map_of (zip ''ABCDEFGHIJKLMNOPQRSTUVWXYZ'' ''abcdefghijklmnopqrstuvwxyz'') c of
        Some d \<Rightarrow> d | None \<Rightarrow> c)"

definition upper_char :: "char \<Rightarrow> char" where
  "upper_char c =
     (case map_of (zip ''abcdefghijklmnopqrstuvwxyz'' ''ABCDEFGHIJKLMNOPQRSTUVWXYZ'') c of
        Some d \<Rightarrow> d | None \<Rightarrow> c)"

definition lower :: "string \<Rightarrow> string" where
  "lower s = map lower_char s"

definition capitalize :: "string \<Rightarrow> string" where
  "capitalize s = (case s of [] \<Rightarrow> [] | c # cs \<Rightarrow> upper_char c # map lower_char cs)"

text \<open>
  A \<^verbatim>\<open>str\<close> is a sequence of code points. Wherever the program only stores,
  compares or prints it, it is modelled by its UTF-8 bytes, a \<open>string\<close>. That leaves
  out the \<^verbatim>\<open>str\<close>s that have no UTF-8 form, those with a surrogate code point
  (\<open>0xD800\<close> to \<open>0xDFFF\<close>), which \<^verbatim>\<open>str.encode()\<close> refuses with a
  \<^verbatim>\<open>UnicodeEncodeError\<close>. The password handed to \<^verbatim>\<open>authenticate_customer\<close>
  comes from whoever asks to be authenticated and is hashed through
  \<^verbatim>\<open>(password + salt).encode()\<close>: it is a \<open>pystr\<close>, the list of its code points,
  and \<open>encode\<close> is \<^verbatim>\<open>str.encode()\<close>.
\<close>

type_synonym pystr = "nat list"

definition utf8_char :: "nat \<Rightarrow> error + string" where
  "utf8_char n =
     (if n < 0x80 then Inr [char_of n]
      else if n < 0x800 then Inr [char_of (0xC0 + n div 64), char_of (0x80 + n mod 64)]
      else if 0xD800 \<le> n \<and> n < 0xE000 then Inl (UnicodeEncodeError ''surrogates not allowed'')
      else if n < 0x10000
      then Inr [char_of (0xE0 + n div 4096), char_of (0x80 + n div 64 mod 64),
                char_of (0x80 + n mod 64)]
      else Inr [char_of (0xF0 + n div 262144 mod 8), char_of (0x80 + n div 4096 mod 64),
                char_of (0x80 + n div 64 mod 64), char_of (0x80 + n mod 64)])"

definition encode :: "pystr \<Rightarrow> error + string" where
  "encode t = ebind (emap utf8_char t) (\<lambda>bs. Inr (concat bs))"

text \<open>
  The random source is injected: \<open>ints\<close> is the sequence of its raw integer draws, in
  call order, and \<open>uniform_2f i\<close> is the text of the \<open>i\<close>-th price
  \<^verbatim>\<open>f"{random.uniform(1.99, 15.99):.2f}"\<close>. \<^verbatim>\<open>randint(lo, hi)\<close> maps a draw into
  \<open>[lo, hi]\<close>; \<^verbatim>\<open>sample(pool, k)\<close> removes \<open>k\<close> times the element at a drawn position
  of what is left of the pool, and raises when \<open>k\<close> exceeds the size of the pool.
\<close>

record rand =
  ints :: "nat \<Rightarrow> nat"
  uniform_2f :: "nat \<Rightarrow> string"

definition randint :: "nat \<Rightarrow> nat \<Rightarrow> nat \<Rightarrow> nat" where
  "randint lo hi x = lo + x mod (hi - lo + 1)"

fun sample_from :: "(nat \<Rightarrow> nat) \<Rightarrow> 'a list \<Rightarrow> nat \<Rightarrow> 'a list" where
  "sample_from g pool 0 = []"
| "sample_from g pool (Suc k) =
     (let i = g 0 mod length pool in
      pool ! i # sample_from (\<lambda>j. g (Suc j)) (take i pool @ drop (Suc i) pool) k)"

definition random_sample :: "(nat \<Rightarrow> nat) \<Rightarrow> 'a list \<Rightarrow> nat \<Rightarrow> error + 'a list" where
  "random_sample g pool k =
     (if length pool < k then Inl (ValueError ''Sample larger than population or is negative'')
      else Inr (sample_from g pool k))"

text \<open>
  \<^verbatim>\<open>xs.sort(key=f, reverse=True)\<close>: the list is reversed, sorted by a stable ascending
  sort, and reversed again.
\<close>

definition sort_reverse :: "('a \<Rightarrow> nat) \<Rightarrow> 'a list \<Rightarrow> 'a list" where
  "sort_reverse f xs = rev (sort_key f (rev xs))"

section \<open>Entity records\<close>

text \<open>
  \<^verbatim>\<open>Customer.purchase_history\<close> is set to the empty list by the constructor, which
  takes no argument for it, and no method reads or writes it: it is not a field of the
  record.
\<close>

record 'dt customer =
  customer_id :: string
  email :: string
  birthdate :: 'dt
  gender :: string
  address :: string
  favorite_food :: "string list"
  password_hash :: "string option"
  salt :: "string option"
  last_login :: "'dt option"

record 'dt receipt =
  receipt_id :: string
  upload_date :: 'dt
  image_data :: "byte list option"
  ocr_text :: string
  ingredients :: "string list"
  quantity :: int
  shelf_life :: 'dt

record menu_item =
  item_id :: string
  name :: string
  ingredients :: "string list"
  price :: real

record store =
  store_id :: string
  name :: string
  location :: "pyval list"
  menu_items :: "menu_item list"

subsection \<open>Credentials\<close>

definition hash_password :: "'dt pylib \<Rightarrow> string \<Rightarrow> string \<Rightarrow> string" where
  "hash_password L password salt_text = hexdigest (sha256 L (password @ salt_text))"

text \<open>\<open>rnd\<close> is the 16 random bytes \<^verbatim>\<open>secrets.token_hex(16)\<close> draws.\<close>

definition set_password :: "'dt pylib \<Rightarrow> 128 word \<Rightarrow> string \<Rightarrow> 'dt customer \<Rightarrow> 'dt customer" where
  "set_password L rnd password c =
     (let c1 = c\<lparr>salt := Some (token_hex16 rnd)\<rparr> in
      c1\<lparr>password_hash := Some (hash_password L password (token_hex16 rnd))\<rparr>)"

text \<open>\<^verbatim>\<open>not x\<close> for an optional string: true of \<^verbatim>\<open>None\<close> and of the empty string.\<close>

definition not_str :: "string option \<Rightarrow> bool" where
  "not_str v = (case v of None \<Rightarrow> True | Some s \<Rightarrow> s = [])"

definition verify_password :: "'dt pylib \<Rightarrow> string \<Rightarrow> 'dt customer \<Rightarrow> bool" where
  "verify_password L password c =
     (if not_str (password_hash c) \<or> not_str (salt c) then False
      else (case (password_hash c, salt c) of
              (Some h, Some s) \<Rightarrow> h = hash_password L password s
            | _ \<Rightarrow> False))"

text \<open>
  \<open>verify_password\<close> above takes the plaintext by its UTF-8 bytes. Called with a
  \<^verbatim>\<open>str\<close> as it comes from outside, the method tests the stored hash and salt
  first and then hashes, which encodes the password: the call raises when the hash and the
  salt are set and the password cannot be encoded. The salt, a \<open>string\<close>, is its own
  encoding, and the encoding of \<^verbatim>\<open>password + salt\<close> is that of the password followed
  by that of the salt.
\<close>

definition verify_password_str :: "'dt pylib \<Rightarrow> pystr \<Rightarrow> 'dt customer \<Rightarrow> error + bool" where
  "verify_password_str L password c =
     (if not_str (password_hash c) \<or> not_str (salt c) then Inr False
      else ebind (encode password) (\<lambda>plaintext. Inr (verify_password L plaintext c)))"

text \<open>\<open>now\<close> is the value of \<^verbatim>\<open>datetime.now()\<close> at the call.\<close>

definition record_login :: "'dt \<Rightarrow> 'dt customer \<Rightarrow> 'dt customer" where
  "record_login now c = c\<lparr>last_login := Some now\<rparr>"

subsection \<open>Serialisation of the entities\<close>

definition opt_str :: "string option \<Rightarrow> pyval" where
  "opt_str v = (case v of None \<Rightarrow> PyNone | Some s \<Rightarrow> PyStr s)"

text \<open>A \<^verbatim>\<open>datetime\<close> object is always true, so \<^verbatim>\<open>if self.last_login\<close> tests for \<^verbatim>\<open>None\<close>.\<close>

definition Customer_to_dict :: "'dt pylib \<Rightarrow> 'dt customer \<Rightarrow> pydict" where
  "Customer_to_dict L c =
     [(''customer_id'', PyStr (customer_id c)),
      (''email'', PyStr (email c)),
      (''birthdate'', PyStr (isoformat L (birthdate c))),
      (''gender'', PyStr (gender c)),
      (''address'', PyStr (address c)),
      (''favorite_food'', PyList (map PyStr (favorite_food c))),
      (''password_hash'', opt_str (password_hash c)),
      (''salt'', opt_str (salt c)),
      (''last_login'',
         (case last_login c of Some d \<Rightarrow> PyStr (isoformat L d) | None \<Rightarrow> PyNone))]"

definition Customer_from_dict :: "'dt pylib \<Rightarrow> pydict \<Rightarrow> error + 'dt customer" where
  "Customer_from_dict L data =
     ebind (ebind (getitem data ''customer_id'') as_str) (\<lambda>v_customer_id.
     ebind (ebind (getitem data ''email'') as_str) (\<lambda>v_email.
     ebind (ebind (getitem data ''birthdate'') (parse_datetime L)) (\<lambda>v_birthdate.
     ebind (ebind (getitem data ''gender'') as_str) (\<lambda>v_gender.
     ebind (ebind (getitem data ''address'') as_str) (\<lambda>v_address.
     ebind (ebind (getitem data ''favorite_food'') as_str_list) (\<lambda>v_favorite_food.
     ebind (as_opt_str (get data ''password_hash'')) (\<lambda>v_password_hash.
     ebind (as_opt_str (get data ''salt'')) (\<lambda>v_salt.
     ebind (if truthy (get data ''last_login'')
            then ebind (ebind (getitem data ''last_login'') (parse_datetime L)) (\<lambda>d. Inr (Some d))
            else Inr None) (\<lambda>v_last_login.
     Inr \<lparr>customer_id = v_customer_id, email = v_email, birthdate = v_birthdate,
          gender = v_gender, address = v_address, favorite_food = v_favorite_food,
          password_hash = v_password_hash, salt = v_salt,
          last_login = v_last_login\<rparr>)))))))))"

text \<open>\<^verbatim>\<open>if self.image_data\<close> is false of \<^verbatim>\<open>None\<close> and of the empty byte string.\<close>

definition Receipt_to_dict :: "'dt pylib \<Rightarrow> 'dt receipt \<Rightarrow> pydict" where
  "Receipt_to_dict L r =
     [(''receipt_id'', PyStr (receipt_id r)),
      (''upload_date'', PyStr (isoformat L (upload_date r))),
      (''image_data'',
         (case image_data r of
            None \<Rightarrow> PyNone
          | Some b \<Rightarrow> if b \<noteq> [] then PyStr (b64encode L b) else PyNone)),
      (''ocr_text'', PyStr (ocr_text r)),
      (''ingredients'', PyList (map PyStr (receipt.ingredients r))),
      (''quantity'', PyInt (quantity r)),
      (''shelf_life'', PyStr (isoformat L (shelf_life r)))]"

definition Receipt_from_dict :: "'dt pylib \<Rightarrow> pydict \<Rightarrow> error + 'dt receipt" where
  "Receipt_from_dict L data =
     ebind (if truthy (get data ''image_data'')
            then ebind (ebind (getitem data ''image_data'') (decode_bytes L)) (\<lambda>b. Inr (Some b))
            else Inr None) (\<lambda>v_image_data.
     ebind (ebind (getitem data ''receipt_id'') as_str) (\<lambda>v_receipt_id.
     ebind (ebind (getitem data ''upload_date'') (parse_datetime L)) (\<lambda>v_upload_date.
     ebind (ebind (getitem data ''ocr_text'') as_str) (\<lambda>v_ocr_text.
     ebind (ebind (getitem data ''ingredients'') as_str_list) (\<lambda>v_ingredients.
     ebind (ebind (getitem data ''quantity'') as_int) (\<lambda>v_quantity.
     ebind (ebind (getitem data ''shelf_life'') (parse_datetime L)) (\<lambda>v_shelf_life.
     Inr \<lparr>receipt_id = v_receipt_id, upload_date = v_upload_date,
          image_data = v_image_data, ocr_text = v_ocr_text,
          ingredients = v_ingredients, quantity = v_quantity,
          shelf_life = v_shelf_life\<rparr>)))))))"

definition match_ingredients :: "menu_item \<Rightarrow> string list \<Rightarrow> bool" where
  "match_ingredients item ings = list_ex (\<lambda>ingredient. ingredient \<in> set (menu_item.ingredients item)) ings"

definition MenuItem_to_dict :: "menu_item \<Rightarrow> pydict" where
  "MenuItem_to_dict item =
     [(''item_id'', PyStr (item_id item)),
      (''name'', PyStr (menu_item.name item)),
      (''ingredients'', PyList (map PyStr (menu_item.ingredients item))),
      (''price'', PyFloat (price item))]"

definition MenuItem_from_dict :: "pydict \<Rightarrow> error + menu_item" where
  "MenuItem_from_dict data =
     ebind (ebind (getitem data ''item_id'') as_str) (\<lambda>v_item_id.
     ebind (ebind (getitem data ''name'') as_str) (\<lambda>v_name.
     ebind (ebind (getitem data ''ingredients'') as_str_list) (\<lambda>v_ingredients.
     ebind (ebind (getitem data ''price'') as_float) (\<lambda>v_price.
     Inr \<lparr>item_id = v_item_id, name = v_name, ingredients = v_ingredients,
          price = v_price\<rparr>))))"

definition Store_to_dict :: "store \<Rightarrow> pydict" where
  "Store_to_dict st =
     [(''store_id'', PyStr (store_id st)),
      (''name'', PyStr (store.name st)),
      (''location'', PyTuple (location st)),
      (''menu_items'', PyList (map (\<lambda>item. PyDict (MenuItem_to_dict item)) (menu_items st)))]"

definition Store_from_dict :: "pydict \<Rightarrow> error + store" where
  "Store_from_dict data =
     ebind (ebind (ebind (getitem data ''menu_items'') iterate)
                  (emap (\<lambda>item. ebind (as_dict item) MenuItem_from_dict))) (\<lambda>v_menu_items.
     ebind (ebind (getitem data ''store_id'') as_str) (\<lambda>v_store_id.
     ebind (ebind (getitem data ''name'') as_str) (\<lambda>v_name.
     ebind (ebind (getitem data ''location'') iterate) (\<lambda>v_location.
     Inr \<lparr>store_id = v_store_id, name = v_name, location = v_location,
          menu_items = v_menu_items\<rparr>))))"

section \<open>The aggregate \<open>ReceiptSystem\<close>\<close>

text \<open>
  \<open>receipts\<close> is the dictionary from customer ids to receipt lists, as the list of its
  items in insertion order; \<open>AList.update\<close> is the assignment \<^verbatim>\<open>d[k] = v\<close>, which
  replaces the value of a key that is present and appends a new key at the end.

  The lists hold receipt objects, and \<open>'r\<close> is what stands for an object in them. For
  the methods that only read the stored receipts or build new ones
  (\<^verbatim>\<open>get_recommendations\<close>, \<^verbatim>\<open>to_dict\<close>, \<^verbatim>\<open>from_dict\<close>) it is the receipt
  itself: \<open>'dt receipt_system\<close>. \<^verbatim>\<open>process_receipt\<close> writes to the receipt it is
  given and stores that same object, which the caller keeps and which may be in the
  mapping already: there the receipts live in a heap, a function from addresses to
  receipts, and the lists hold addresses: \<open>'dt shared_system\<close>. The methods that do
  not look into the lists are defined for every \<open>'r\<close>.
\<close>

record ('dt, 'r) receipt_system_of =
  customers :: "'dt customer list"
  stores :: "store list"
  receipts :: "(string \<times> 'r list) list"

type_synonym 'dt receipt_system = "('dt, 'dt receipt) receipt_system_of"

type_synonym 'dt heap = "nat \<Rightarrow> 'dt receipt"

type_synonym 'dt shared_system = "('dt, nat) receipt_system_of"

definition ReceiptSystem_init :: "('dt, 'r) receipt_system_of" where
  "ReceiptSystem_init = \<lparr>customers = [], stores = [], receipts = []\<rparr>"

text \<open>
  A mutating method returns the exception it raised, if any, and the state it leaves;
  \<open>authenticate_customer\<close> returns the exception it raised or its value, and the state.
\<close>

definition register_customer ::
  "'dt customer \<Rightarrow> ('dt, 'r) receipt_system_of
     \<Rightarrow> error option \<times> ('dt, 'r) receipt_system_of" where
  "register_customer c s =
     (if list_ex (\<lambda>c'. customer_id c' = customer_id c) (customers s)
      then (Some (ValueError (''Customer with ID '' @ customer_id c @ '' already exists'')), s)
      else if list_ex (\<lambda>c'. email c' = email c) (customers s)
      then (Some (ValueError (''Customer with email '' @ email c @ '' already exists'')), s)
      else
        (let s1 = s\<lparr>customers := customers s @ [c]\<rparr>;
             s2 = s1\<lparr>receipts := AList.update (customer_id c) [] (receipts s1)\<rparr>
         in (None, s2)))"

definition add_store ::
  "store \<Rightarrow> ('dt, 'r) receipt_system_of \<Rightarrow> error option \<times> ('dt, 'r) receipt_system_of" where
  "add_store st s =
     (if list_ex (\<lambda>s'. store_id s' = store_id st) (stores s)
      then (Some (ValueError (''Store with ID '' @ store_id st @ '' already exists'')), s)
      else (None, s\<lparr>stores := stores s @ [st]\<rparr>))"

subsection \<open>Receipt processing\<close>

definition sample_ingredients :: "string list" where
  "sample_ingredients =
     [''beef'', ''chicken'', ''lettuce'', ''tomato'', ''cheese'', ''bread'', ''milk'', ''eggs'',
      ''rice'', ''pasta'']"

definition newline :: string where
  "newline = [CHR 0x0A]"

text \<open>The loop that adds one line per ingredient; \<open>i\<close> counts the prices drawn so far.\<close>

fun item_lines :: "(nat \<Rightarrow> string) \<Rightarrow> nat \<Rightarrow> string list \<Rightarrow> string \<Rightarrow> string" where
  "item_lines price_text i [] text = text"
| "item_lines price_text i (ingredient # rest) text =
     item_lines price_text (Suc i) rest
       (text @ ''- '' @ capitalize ingredient @ '' $'' @ price_text i @ newline)"

text \<open>
  \<open>a\<close> is the address of the receipt passed to the method, \<open>h\<close> the heap and
  \<open>customer_id_arg\<close> the optional argument, \<open>None\<close> when it is omitted. The method
  writes the fields of the receipt at \<open>a\<close> and may append \<open>a\<close> to a list of the
  mapping: the result is the heap and the system after the call. \<open>process_sampled\<close> is
  the body of the method from the point where the ingredient sample \<open>smp\<close> has been
  drawn; \<open>process_receipt\<close> draws it.
\<close>

definition process_sampled ::
  "'dt pylib \<Rightarrow> (nat \<Rightarrow> string) \<Rightarrow> string list \<Rightarrow> nat \<Rightarrow> string option
     \<Rightarrow> 'dt heap \<Rightarrow> 'dt shared_system \<Rightarrow> 'dt heap \<times> 'dt shared_system" where
  "process_sampled L price_text smp a customer_id_arg h s =
     (let r = h a;
          r1 = r\<lparr>receipt.ingredients := smp\<rparr>;
          r2 = r1\<lparr>ocr_text := ''Receipt #'' @ receipt_id r1 @ newline\<rparr>;
          r3 = r2\<lparr>ocr_text := ocr_text r2 @ ''Date: '' @ strftime_ymd L (upload_date r2) @ newline\<rparr>;
          r4 = r3\<lparr>ocr_text := ocr_text r3 @ ''Items:'' @ newline\<rparr>;
          r5 = r4\<lparr>ocr_text := item_lines price_text 0 (receipt.ingredients r4) (ocr_text r4)\<rparr>;
          shelf_life_days =
            (if ''milk'' \<in> set (receipt.ingredients r5) \<or> ''eggs'' \<in> set (receipt.ingredients r5)
             then 3 else 7);
          r6 = r5\<lparr>shelf_life := plus_days L (upload_date r5) shelf_life_days\<rparr>;
          h' = h(a := r6)
      in (case customer_id_arg of
            None \<Rightarrow> (h', s)
          | Some cid \<Rightarrow>
              if cid \<noteq> [] \<and> cid \<in> fst ` set (receipts s)
              then (h', s\<lparr>receipts := AList.map_entry cid (\<lambda>refs. refs @ [a]) (receipts s)\<rparr>)
              else (h', s)))"

definition process_receipt ::
  "'dt pylib \<Rightarrow> rand \<Rightarrow> nat \<Rightarrow> string option \<Rightarrow> 'dt heap \<Rightarrow> 'dt shared_system
     \<Rightarrow> error + ('dt heap \<times> 'dt shared_system)" where
  "process_receipt L rnd a customer_id_arg h s =
     (let num_ingredients = randint 2 5 (ints rnd 0) in
      ebind (random_sample (\<lambda>i. ints rnd (Suc i)) sample_ingredients num_ingredients) (\<lambda>smp.
        Inr (process_sampled L (uniform_2f rnd) smp a customer_id_arg h s)))"

subsection \<open>Recommendations\<close>

definition all_menu_items :: "('dt, 'r) receipt_system_of \<Rightarrow> menu_item list" where
  "all_menu_items s = fold (\<lambda>st acc. acc @ menu_items st) (stores s) []"

definition customer_ingredients :: "'dt customer \<Rightarrow> 'dt receipt_system \<Rightarrow> string set" where
  "customer_ingredients c s =
     (case map_of (receipts s) (customer_id c) of
        None \<Rightarrow> set (favorite_food c)
      | Some rs \<Rightarrow> fold (\<lambda>r acc. acc \<union> set (receipt.ingredients r)) rs (set (favorite_food c)))"

definition matching_items :: "string set \<Rightarrow> menu_item list \<Rightarrow> menu_item list" where
  "matching_items S items =
     fold (\<lambda>item acc.
             if \<exists>ingredient\<in>S. ingredient \<in> set (menu_item.ingredients item)
             then acc @ [item] else acc) items []"

text \<open>The sort key: \<^verbatim>\<open>sum(1 for ing in customer_ingredients if ing in x.ingredients)\<close>.\<close>

definition match_count :: "string set \<Rightarrow> menu_item \<Rightarrow> nat" where
  "match_count S x = (\<Sum>ing\<in>S. if ing \<in> set (menu_item.ingredients x) then 1 else 0)"

definition get_recommendations ::
  "rand \<Rightarrow> 'dt customer \<Rightarrow> 'dt receipt_system \<Rightarrow> error + menu_item list" where
  "get_recommendations rnd c s =
     (let items = all_menu_items s in
      if items = [] then Inr []
      else
        let S = customer_ingredients c s;
            matching = matching_items S items
        in if matching \<noteq> []
           then Inr (take 3 (sort_reverse (match_count S) matching))
           else
             let num_recommendations = min (length items) (randint 1 3 (ints rnd 0))
             in random_sample (\<lambda>i. ints rnd (Suc i)) items num_recommendations)"

subsection \<open>Lookup, authentication and update\<close>

text \<open>
  \<^verbatim>\<open>get_customer_by_email\<close> returns the object that is in the list, not a copy: the
  scan yields the position of the first match together with the customer there, and
  what \<^verbatim>\<open>authenticate_customer\<close> then changes in that customer is changed at that
  position of the list.
\<close>

fun scan_email :: "string \<Rightarrow> 'dt customer list \<Rightarrow> (nat \<times> 'dt customer) option" where
  "scan_email e [] = None"
| "scan_email e (c # cs) =
     (if lower (email c) = lower e then Some (0, c)
      else map_option (\<lambda>(i, c'). (Suc i, c')) (scan_email e cs))"

definition get_customer_by_email ::
  "string \<Rightarrow> ('dt, 'r) receipt_system_of \<Rightarrow> 'dt customer option" where
  "get_customer_by_email e s = map_option snd (scan_email e (customers s))"

definition authenticate_customer ::
  "'dt pylib \<Rightarrow> 'dt \<Rightarrow> string \<Rightarrow> pystr \<Rightarrow> ('dt, 'r) receipt_system_of
     \<Rightarrow> (error + 'dt customer option) \<times> ('dt, 'r) receipt_system_of" where
  "authenticate_customer L now e password s =
     (case scan_email e (customers s) of
        None \<Rightarrow> (Inr None, s)
      | Some (i, c) \<Rightarrow>
          (case verify_password_str L password c of
             Inl err \<Rightarrow> (Inl err, s)
           | Inr verified \<Rightarrow>
               if verified
               then (let c' = record_login now c
                     in (Inr (Some c'), s\<lparr>customers := (customers s)[i := c']\<rparr>))
               else (Inr None, s)))"

fun replace_customer :: "'dt customer \<Rightarrow> 'dt customer list \<Rightarrow> bool \<times> 'dt customer list" where
  "replace_customer c [] = (False, [])"
| "replace_customer c (c' # cs) =
     (if customer_id c' = customer_id c then (True, c # cs)
      else (let (found, cs') = replace_customer c cs in (found, c' # cs')))"

definition update_customer ::
  "'dt customer \<Rightarrow> ('dt, 'r) receipt_system_of \<Rightarrow> bool \<times> ('dt, 'r) receipt_system_of" where
  "update_customer c s =
     (let (found, cs) = replace_customer c (customers s) in (found, s\<lparr>customers := cs\<rparr>))"

subsection \<open>Snapshots of the system\<close>

definition ReceiptSystem_to_dict :: "'dt pylib \<Rightarrow> 'dt receipt_system \<Rightarrow> pydict" where
  "ReceiptSystem_to_dict L s =
     [(''customers'', PyList (map (\<lambda>c. PyDict (Customer_to_dict L c)) (customers s))),
      (''stores'', PyList (map (\<lambda>st. PyDict (Store_to_dict st)) (stores s))),
      (''receipts'',
         PyDict (map (\<lambda>(cid, rs). (cid, PyList (map (\<lambda>r. PyDict (Receipt_to_dict L r)) rs)))
                     (receipts s)))]"

fun load_stores :: "pyval list \<Rightarrow> 'dt receipt_system \<Rightarrow> error + 'dt receipt_system" where
  "load_stores [] sys = Inr sys"
| "load_stores (store_data # rest) sys =
     ebind (ebind (as_dict store_data) Store_from_dict) (\<lambda>st.
       load_stores rest (sys\<lparr>stores := stores sys @ [st]\<rparr>))"

fun load_customers ::
  "'dt pylib \<Rightarrow> pyval list \<Rightarrow> 'dt receipt_system \<Rightarrow> error + 'dt receipt_system" where
  "load_customers L [] sys = Inr sys"
| "load_customers L (customer_data # rest) sys =
     ebind (ebind (as_dict customer_data) (Customer_from_dict L)) (\<lambda>c.
       load_customers L rest (sys\<lparr>customers := customers sys @ [c]\<rparr>))"

fun load_receipts ::
  "'dt pylib \<Rightarrow> (string \<times> pyval) list \<Rightarrow> 'dt receipt_system \<Rightarrow> error + 'dt receipt_system" where
  "load_receipts L [] sys = Inr sys"
| "load_receipts L ((cid, receipts_data) # rest) sys =
     ebind (ebind (iterate receipts_data)
                  (emap (\<lambda>r. ebind (as_dict r) (Receipt_from_dict L)))) (\<lambda>rs.
       load_receipts L rest (sys\<lparr>receipts := AList.update cid rs (receipts sys)\<rparr>))"

definition ReceiptSystem_from_dict :: "'dt pylib \<Rightarrow> pydict \<Rightarrow> error + 'dt receipt_system" where
  "ReceiptSystem_from_dict L data =
     ebind (iterate (get_default data ''stores'' (PyList []))) (\<lambda>stores_data.
     ebind (load_stores stores_data ReceiptSystem_init) (\<lambda>sys1.
     ebind (iterate (get_default data ''customers'' (PyList []))) (\<lambda>customers_data.
     ebind (load_customers L customers_data sys1) (\<lambda>sys2.
     ebind (as_dict (get_default data ''receipts'' (PyDict []))) (\<lambda>receipts_data.
     load_receipts L receipts_data sys2)))))"

subsection \<open>The invariant of the receipt mapping\<close>

definition registered_have_entry :: "('dt, 'r) receipt_system_of \<Rightarrow> bool" where
  "registered_have_entry s \<longleftrightarrow>
     (\<forall>c\<in>set (customers s). customer_id c \<in> fst ` set (receipts s))"

subsection \<open>A snapshot read back\<close>

text \<open>
  What a receipt and a system are after \<^verbatim>\<open>to_dict\<close> and \<^verbatim>\<open>from_dict\<close>: \<^verbatim>\<open>to_dict\<close>
  writes \<^verbatim>\<open>None\<close> for the empty byte string, so an empty \<open>image_data\<close> is read back
  as absent.
\<close>

definition read_back_receipt :: "'dt receipt \<Rightarrow> 'dt receipt" where
  "read_back_receipt r = (if image_data r = Some [] then r\<lparr>image_data := None\<rparr> else r)"

definition read_back :: "'dt receipt_system \<Rightarrow> 'dt receipt_system" where
  "read_back s = s\<lparr>receipts := map (\<lambda>(cid, rs). (cid, map read_back_receipt rs)) (receipts s)\<rparr>"

section \<open>A library instance and sample data\<close>

text \<open>
  An instance of the library parameters, over timestamps counted in days, on which the
  definitions can be run: a timestamp \<open>d\<close> prints as \<open>d + 1\<close> letters, a byte string
  prints as the characters with its byte values.
\<close>

definition demo_lib :: "nat pylib" where
  "demo_lib =
     \<lparr>isoformat = (\<lambda>d. replicate (Suc d) CHR ''T''),
      fromisoformat = (\<lambda>s. if s = [] then None else Some (length s - 1)),
      strftime_ymd = (\<lambda>d. replicate (Suc d) CHR ''D''),
      plus_days = (\<lambda>d n. d + n),
      b64encode = map (\<lambda>w. char_of (unat w)),
      b64decode = (\<lambda>s. Some (map (\<lambda>c. of_nat (of_char c)) s)),
      sha256 = (\<lambda>s. of_nat (length s))\<rparr>"

definition alice :: "nat customer" where
  "alice =
     \<lparr>customer_id = ''c1'', email = ''alice@example.com'', birthdate = 7, gender = ''f'',
      address = ''1 Main St'', favorite_food = [''cheese''], password_hash = None,
      salt = None, last_login = None\<rparr>"

definition demo_rand :: rand where
  "demo_rand = \<lparr>ints = (\<lambda>i. i), uniform_2f = (\<lambda>i. ''4.20'')\<rparr>"

definition demo_receipt :: "nat receipt" where
  "demo_receipt =
     \<lparr>receipt_id = ''r1'', upload_date = 10, image_data = None, ocr_text = [],
      ingredients = [], quantity = 1, shelf_life = 0\<rparr>"

text \<open>A heap in which every address holds a copy of \<open>demo_receipt\<close>.\<close>

definition demo_heap :: "nat heap" where
  "demo_heap = (\<lambda>a. demo_receipt)"

definition one_customer :: "nat receipt_system" where
  "one_customer = snd (register_customer alice ReceiptSystem_init)"

definition one_customer_shared :: "nat shared_system" where
  "one_customer_shared = snd (register_customer alice ReceiptSystem_init)"

definition anonymous :: "nat customer" where
  "anonymous = alice\<lparr>customer_id := []\<rparr>"

definition anonymous_only :: "nat shared_system" where
  "anonymous_only = snd (register_customer anonymous ReceiptSystem_init)"

definition alice_with_password :: "nat customer" where
  "alice_with_password = set_password demo_lib 5 ''p1'' alice"

definition alice_registered :: "nat receipt_system" where
  "alice_registered = snd (register_customer alice_with_password ReceiptSystem_init)"

text \<open>The passwords \<^verbatim>\<open>"p1"\<close> and \<^verbatim>\<open>"wrong"\<close>, and a lone surrogate.\<close>

definition password_p1 :: pystr where
  "password_p1 = [0x70, 0x31]"

definition password_wrong :: pystr where
  "password_wrong = [0x77, 0x72, 0x6F, 0x6E, 0x67]"

definition password_surrogate :: pystr where
  "password_surrogate = [0xD800]"

definition alice_upper :: "nat customer" where
  "alice_upper = alice\<lparr>customer_id := ''c2'', email := ''Alice@Example.COM''\<rparr>"

definition fruit_salad :: menu_item where
  "fruit_salad =
     \<lparr>item_id = ''m1'', name = ''Fruit salad'', ingredients = [''apple'', ''pear''], price = 5\<rparr>"

definition cheese_toast :: menu_item where
  "cheese_toast =
     \<lparr>item_id = ''m2'', name = ''Cheese toast'', ingredients = [''bread'', ''cheese''], price = 4\<rparr>"

definition milk_shake :: menu_item where
  "milk_shake =
     \<lparr>item_id = ''m3'', name = ''Milk shake'', ingredients = [''milk''], price = 3\<rparr>"

definition cheese_omelette :: menu_item where
  "cheese_omelette =
     \<lparr>item_id = ''m4'', name = ''Cheese omelette'',
      ingredients = [''eggs'', ''cheese'', ''milk''], price = 6\<rparr>"

definition corner_store :: store where
  "corner_store =
     \<lparr>store_id = ''s1'', name = ''Corner'', location = [PyFloat 1, PyFloat 2],
      menu_items = [fruit_salad, cheese_toast]\<rparr>"

definition dairy_store :: store where
  "dairy_store =
     \<lparr>store_id = ''s2'', name = ''Dairy'', location = [PyFloat 3, PyFloat 4],
      menu_items = [milk_shake, cheese_omelette]\<rparr>"

definition dairy_receipt :: "nat receipt" where
  "dairy_receipt =
     \<lparr>receipt_id = ''r2'', upload_date = 11, image_data = Some [1, 2, 3], ocr_text = ''text'',
      ingredients = [''milk'', ''eggs''], quantity = 2, shelf_life = 14\<rparr>"

definition shop :: "nat receipt_system" where
  "shop =
     \<lparr>customers = [alice], stores = [corner_store, dairy_store],
      receipts = [(''c1'', [dairy_receipt])]\<rparr>"

definition bob :: "nat customer" where
  "bob =
     \<lparr>customer_id = ''c9'', email = ''bob@example.com'', birthdate = 3, gender = ''m'',
      address = ''2 Side St'', favorite_food = [''tofu''], password_hash = None,
      salt = None, last_login = Some 12\<rparr>"

definition demo_rand_two :: rand where
  "demo_rand_two = \<lparr>ints = (\<lambda>i. Suc i), uniform_2f = (\<lambda>i. ''9.99'')\<rparr>"

definition blank_image_receipt :: "nat receipt" where
  "blank_image_receipt = dairy_receipt\<lparr>image_data := Some []\<rparr>"

definition blank_image_system :: "nat receipt_system" where
  "blank_image_system =
     \<lparr>customers = [alice], stores = [], receipts = [(''c1'', [blank_image_receipt])]\<rparr>"

definition populated :: "nat receipt_system" where
  "populated =
     \<lparr>customers = [alice_with_password, bob], stores = [corner_store, dairy_store],
      receipts = [(''c1'', [dairy_receipt, demo_receipt]), (''c9'', [])]\<rparr>"

definition orphan_snapshot :: pydict where
  "orphan_snapshot =
     [(''customers'', PyList [PyDict (Customer_to_dict demo_lib alice)]),
      (''stores'', PyList []),
      (''receipts'', PyDict [])]"

section \<open>Properties\<close>

subsection \<open>Credentials\<close>

lemma length_hex_of_word: "length (hex_of_word n w) = n"
  by (simp add: hex_of_word_def)

lemma token_hex16_nonempty: "token_hex16 w \<noteq> []"
  using length_hex_of_word [of 32 w] by (auto simp: token_hex16_def)

lemma hexdigest_nonempty: "hexdigest w \<noteq> []"
  using length_hex_of_word [of 64 w] by (auto simp: hexdigest_def)

text \<open>
  Claim C8. For every customer, every plaintext \<open>p\<close> and whatever 16 random bytes
  \<open>rnd\<close> the salt is made of, \<open>verify_password p\<close> after \<open>set_password p\<close> is true.
  \<open>verify_password q\<close> is true only if both the hash and the salt are stored and the
  stored hash is exactly the hash of \<open>q\<close> with the stored salt. It is false whenever
  the hash or the salt is absent.
\<close>

theorem set_password_then_verify:
  "verify_password L p (set_password L rnd p c)
   \<and> (verify_password L q c \<longrightarrow>
        (\<exists>h s. password_hash c = Some h \<and> salt c = Some s \<and> h = hash_password L q s))
   \<and> (password_hash c = None \<or> salt c = None \<longrightarrow> \<not> verify_password L q c)"
  by (auto simp: verify_password_def set_password_def not_str_def hash_password_def
      token_hex16_nonempty hexdigest_nonempty split: option.splits)

theorem set_password_then_verify_witness:
  "verify_password demo_lib ''p1'' (set_password demo_lib 5 ''p1'' alice)
   \<and> (\<exists>h s. password_hash (set_password demo_lib 5 ''p1'' alice) = Some h
            \<and> salt (set_password demo_lib 5 ''p1'' alice) = Some s
            \<and> h = hash_password demo_lib ''p1'' s)
   \<and> password_hash alice = None
   \<and> \<not> verify_password demo_lib ''p1'' alice"
  using set_password_then_verify [of demo_lib "''p1''" 5 alice "''p1''"]
        set_password_then_verify [of demo_lib "''p1''" 5 "set_password demo_lib 5 ''p1'' alice" "''p1''"]
  by (simp add: alice_def)

subsection \<open>Registration\<close>

lemma one_customer_eq:
  "one_customer = \<lparr>customers = [alice], stores = [], receipts = [(''c1'', [])]\<rparr>"
  by (simp add: one_customer_def register_customer_def ReceiptSystem_init_def alice_def)

lemma one_customer_shared_eq:
  "one_customer_shared = \<lparr>customers = [alice], stores = [], receipts = [(''c1'', [])]\<rparr>"
  by (simp add: one_customer_shared_def register_customer_def ReceiptSystem_init_def alice_def)

lemma anonymous_only_eq:
  "anonymous_only = \<lparr>customers = [anonymous], stores = [], receipts = [([], [])]\<rparr>"
  by (simp add: anonymous_only_def register_customer_def ReceiptSystem_init_def anonymous_def)

text \<open>
  Claim C2. In every state of the system, registering a customer whose \<open>customer_id\<close>
  is the \<open>customer_id\<close> of a customer already in the list raises the
  \<^verbatim>\<open>ValueError\<close> of a duplicate id and leaves the state as it was: the customer
  list and the receipt mapping are those before the call.
\<close>

theorem register_duplicate_id_rejected:
  "\<exists>c'\<in>set (customers s). customer_id c' = customer_id c \<Longrightarrow>
     fst (register_customer c s) =
       Some (ValueError (''Customer with ID '' @ customer_id c @ '' already exists''))
     \<and> snd (register_customer c s) = s
     \<and> customers (snd (register_customer c s)) = customers s
     \<and> receipts (snd (register_customer c s)) = receipts s"
  by (simp add: register_customer_def list_ex_iff)

theorem register_duplicate_id_rejected_witness:
  "(\<exists>c'\<in>set (customers one_customer).
       customer_id c' = customer_id (alice\<lparr>email := ''other@example.com''\<rparr>))
   \<and> fst (register_customer (alice\<lparr>email := ''other@example.com''\<rparr>) one_customer) =
       Some (ValueError ''Customer with ID c1 already exists'')
   \<and> snd (register_customer (alice\<lparr>email := ''other@example.com''\<rparr>) one_customer) = one_customer"
  using register_duplicate_id_rejected [of one_customer "alice\<lparr>email := ''other@example.com''\<rparr>"]
  by (simp add: one_customer_eq alice_def)

subsection \<open>Receipt processing\<close>

lemma randint_bounds: "lo \<le> hi \<Longrightarrow> lo \<le> randint lo hi x \<and> randint lo hi x \<le> hi"
proof -
  assume "lo \<le> hi"
  have "x mod (hi - lo + 1) < hi - lo + 1" by simp
  with \<open>lo \<le> hi\<close> show ?thesis unfolding randint_def by linarith
qed

lemma length_sample_ingredients: "length sample_ingredients = 10"
  by (simp add: sample_ingredients_def)

lemma length_sample_from: "length (sample_from g pool k) = k"
  by (induction k arbitrary: g pool) (simp_all add: Let_def)

lemma draw_ingredients_ok:
  "random_sample g sample_ingredients (randint 2 5 x) =
     Inr (sample_from g sample_ingredients (randint 2 5 x))"
  using randint_bounds [of 2 5 x] by (simp add: random_sample_def length_sample_ingredients)

lemma process_receipt_eq:
  "process_receipt L rnd a arg h s =
     Inr (process_sampled L (uniform_2f rnd)
            (sample_from (\<lambda>i. ints rnd (Suc i)) sample_ingredients (randint 2 5 (ints rnd 0)))
            a arg h s)"
  by (simp add: process_receipt_def draw_ingredients_ok ebind_def)

lemma process_sampled_heap:
  "fst (process_sampled L pt smp a arg h s) =
     h(a := (h a)\<lparr>receipt.ingredients := smp,
                 ocr_text := item_lines pt 0 smp
                    (''Receipt #'' @ receipt_id (h a) @ newline @ ''Date: ''
                       @ strftime_ymd L (upload_date (h a)) @ newline @ ''Items:'' @ newline),
                 shelf_life := plus_days L (upload_date (h a))
                    (if ''milk'' \<in> set smp \<or> ''eggs'' \<in> set smp then 3 else 7)\<rparr>)"
proof -
  have "fst (case arg of None \<Rightarrow> (x, s) | Some cid \<Rightarrow> if P cid then (x, f cid) else (x, s)) = x"
    for x :: "'a heap" and P f
    by (cases arg) simp_all
  then show ?thesis
    unfolding process_sampled_def Let_def by simp
qed

lemma process_sampled_system:
  "snd (process_sampled L pt smp a arg h s) =
     (case arg of
        None \<Rightarrow> s
      | Some cid \<Rightarrow>
          if cid \<noteq> [] \<and> cid \<in> fst ` set (receipts s)
          then s\<lparr>receipts := AList.map_entry cid (\<lambda>refs. refs @ [a]) (receipts s)\<rparr>
          else s)"
proof -
  have pair: "(case arg of None \<Rightarrow> (x, s) | Some cid \<Rightarrow> if P cid then (x, f cid) else (x, s)) =
          (x, case arg of None \<Rightarrow> s | Some cid \<Rightarrow> if P cid then f cid else s)"
    for x :: "'a heap" and P f
    by (cases arg) simp_all
  show ?thesis
    unfolding process_sampled_def Let_def pair snd_conv by (rule refl)
qed

lemma demo_draw:
  "sample_from (\<lambda>i. ints demo_rand (Suc i)) sample_ingredients (randint 2 5 (ints demo_rand 0))
     = [''chicken'', ''tomato'']"
proof -
  have "randint 2 5 (ints demo_rand 0) = Suc (Suc 0)"
    by (simp add: randint_def demo_rand_def)
  then show ?thesis
    by (simp add: sample_ingredients_def demo_rand_def Let_def)
qed

text \<open>
  Claim C5. For every receipt and every ingredient sample \<open>smp\<close> handed to the body of
  \<open>process_receipt\<close>, the receipt's \<open>shelf_life\<close> becomes its \<open>upload_date\<close> plus 3
  days when \<open>milk\<close> or \<open>eggs\<close> is in the sample and its \<open>upload_date\<close> plus 7 days
  otherwise, and nothing else; \<open>process_receipt\<close> is that body run on the sample it
  draws.
\<close>

theorem shelf_life_three_or_seven:
  "shelf_life (fst (process_sampled L pt smp a arg h s) a) =
     (if ''milk'' \<in> set smp \<or> ''eggs'' \<in> set smp
      then plus_days L (upload_date (h a)) 3 else plus_days L (upload_date (h a)) 7)
   \<and> receipt.ingredients (fst (process_sampled L pt smp a arg h s) a) = smp
   \<and> upload_date (fst (process_sampled L pt smp a arg h s) a) = upload_date (h a)
   \<and> process_receipt L rnd a arg h s =
       Inr (process_sampled L (uniform_2f rnd)
              (sample_from (\<lambda>i. ints rnd (Suc i)) sample_ingredients (randint 2 5 (ints rnd 0)))
              a arg h s)"
  by (simp add: process_sampled_heap process_receipt_eq)

theorem shelf_life_three_or_seven_witness:
  "upload_date (demo_heap 0) = 10
   \<and> shelf_life (fst (process_sampled demo_lib (\<lambda>i. ''4.20'') [''milk'', ''rice'']
                        0 None demo_heap ReceiptSystem_init) 0) = 13
   \<and> shelf_life (fst (process_sampled demo_lib (\<lambda>i. ''4.20'') [''rice'', ''pasta'']
                        0 None demo_heap ReceiptSystem_init) 0) = 17"
  using shelf_life_three_or_seven [of demo_lib "\<lambda>i. ''4.20''" "[''milk'', ''rice'']"
            0 None demo_heap ReceiptSystem_init demo_rand]
        shelf_life_three_or_seven [of demo_lib "\<lambda>i. ''4.20''" "[''rice'', ''pasta'']"
            0 None demo_heap ReceiptSystem_init demo_rand]
  by (simp add: demo_lib_def demo_heap_def demo_receipt_def)

text \<open>
  Claim C6. In every state, \<open>process_receipt\<close> called without a customer id, or with
  one that is not a key of the receipt mapping, returns normally with the system exactly
  as it was, and the receipt passed has its ingredients (the drawn sample, of 2 to 5
  items), its \<open>ocr_text\<close> and its \<open>shelf_life\<close> set; no other receipt object is written.
  No call raises. Whenever a call changes the system, the customer id given is a key of
  the mapping, and the change is that the receipt passed is appended to the list of that
  key.
\<close>

theorem unrecognised_id_not_stored:
  "(arg = None \<or> (\<exists>cid. arg = Some cid \<and> cid \<notin> fst ` set (receipts s)) \<longrightarrow>
      (\<exists>h'. process_receipt L rnd a arg h s = Inr (h', s)
         \<and> receipt.ingredients (h' a) =
             sample_from (\<lambda>i. ints rnd (Suc i)) sample_ingredients (randint 2 5 (ints rnd 0))
         \<and> 2 \<le> length (receipt.ingredients (h' a)) \<and> length (receipt.ingredients (h' a)) \<le> 5
         \<and> ocr_text (h' a) =
             item_lines (uniform_2f rnd) 0 (receipt.ingredients (h' a))
               (''Receipt #'' @ receipt_id (h a) @ newline @ ''Date: ''
                  @ strftime_ymd L (upload_date (h a)) @ newline @ ''Items:'' @ newline)
         \<and> shelf_life (h' a) =
             plus_days L (upload_date (h a))
               (if ''milk'' \<in> set (receipt.ingredients (h' a))
                   \<or> ''eggs'' \<in> set (receipt.ingredients (h' a))
                then 3 else 7)
         \<and> (\<forall>b. b \<noteq> a \<longrightarrow> h' b = h b)))
   \<and> (\<forall>h' s'. process_receipt L rnd a arg h s = Inr (h', s') \<and> s' \<noteq> s \<longrightarrow>
         (\<exists>cid. arg = Some cid \<and> cid \<in> fst ` set (receipts s)
            \<and> s' = s\<lparr>receipts := AList.map_entry cid (\<lambda>refs. refs @ [a]) (receipts s)\<rparr>))
   \<and> (\<exists>h' s'. process_receipt L rnd a arg h s = Inr (h', s'))"
proof -
  define smp where
    "smp = sample_from (\<lambda>i. ints rnd (Suc i)) sample_ingredients (randint 2 5 (ints rnd 0))"
  define out where "out = process_sampled L (uniform_2f rnd) smp a arg h s"
  have run: "process_receipt L rnd a arg h s = Inr (fst out, snd out)"
    by (simp add: process_receipt_eq out_def smp_def)
  have len: "2 \<le> length smp \<and> length smp \<le> 5"
    using randint_bounds [of 2 5 "ints rnd 0"] by (simp add: smp_def length_sample_from)
  have heap: "fst out =
     h(a := (h a)\<lparr>receipt.ingredients := smp,
                 ocr_text := item_lines (uniform_2f rnd) 0 smp
                    (''Receipt #'' @ receipt_id (h a) @ newline @ ''Date: ''
                       @ strftime_ymd L (upload_date (h a)) @ newline @ ''Items:'' @ newline),
                 shelf_life := plus_days L (upload_date (h a))
                    (if ''milk'' \<in> set smp \<or> ''eggs'' \<in> set smp then 3 else 7)\<rparr>)"
    unfolding out_def by (rule process_sampled_heap)
  have sys: "snd out =
     (case arg of
        None \<Rightarrow> s
      | Some cid \<Rightarrow>
          if cid \<noteq> [] \<and> cid \<in> fst ` set (receipts s)
          then s\<lparr>receipts := AList.map_entry cid (\<lambda>refs. refs @ [a]) (receipts s)\<rparr>
          else s)"
    unfolding out_def by (rule process_sampled_system)
  have unchanged: "snd out = s"
    if "arg = None \<or> (\<exists>cid. arg = Some cid \<and> cid \<notin> fst ` set (receipts s))"
    using that sys by (auto split: option.splits)
  have changed: "\<exists>cid. arg = Some cid \<and> cid \<in> fst ` set (receipts s)
         \<and> snd out = s\<lparr>receipts := AList.map_entry cid (\<lambda>refs. refs @ [a]) (receipts s)\<rparr>"
    if "snd out \<noteq> s"
  proof (cases arg)
    case None
    with sys that show ?thesis by simp
  next
    case (Some cid)
    with sys that show ?thesis by (simp split: if_splits)
  qed
  have fields: "receipt.ingredients (fst out a) = smp"
    "ocr_text (fst out a) = item_lines (uniform_2f rnd) 0 smp
          (''Receipt #'' @ receipt_id (h a) @ newline @ ''Date: ''
             @ strftime_ymd L (upload_date (h a)) @ newline @ ''Items:'' @ newline)"
    "shelf_life (fst out a) = plus_days L (upload_date (h a))
          (if ''milk'' \<in> set smp \<or> ''eggs'' \<in> set smp then 3 else 7)"
    "\<forall>b. b \<noteq> a \<longrightarrow> fst out b = h b"
    by (simp_all add: heap)
  show ?thesis
    unfolding run smp_def [symmetric]
  proof (intro conjI impI allI)
    assume "arg = None \<or> (\<exists>cid. arg = Some cid \<and> cid \<notin> fst ` set (receipts s))"
    then have "snd out = s" by (rule unchanged)
    with fields len show "\<exists>h'. Inr (fst out, snd out) = Inr (h', s)
         \<and> receipt.ingredients (h' a) = smp
         \<and> 2 \<le> length (receipt.ingredients (h' a)) \<and> length (receipt.ingredients (h' a)) \<le> 5
         \<and> ocr_text (h' a) =
             item_lines (uniform_2f rnd) 0 (receipt.ingredients (h' a))
               (''Receipt #'' @ receipt_id (h a) @ newline @ ''Date: ''
                  @ strftime_ymd L (upload_date (h a)) @ newline @ ''Items:'' @ newline)
         \<and> shelf_life (h' a) =
             plus_days L (upload_date (h a))
               (if ''milk'' \<in> set (receipt.ingredients (h' a))
                   \<or> ''eggs'' \<in> set (receipt.ingredients (h' a))
                then 3 else 7)
         \<and> (\<forall>b. b \<noteq> a \<longrightarrow> h' b = h b)"
      by (intro exI [of _ "fst out"]) simp
  next
    fix h' s'
    assume "Inr (fst out, snd out) = Inr (h', s') \<and> s' \<noteq> s"
    then have "s' = snd out" "snd out \<noteq> s" by auto
    with changed show "\<exists>cid. arg = Some cid \<and> cid \<in> fst ` set (receipts s)
            \<and> s' = s\<lparr>receipts := AList.map_entry cid (\<lambda>refs. refs @ [a]) (receipts s)\<rparr>"
      by simp
  next
    show "\<exists>h' s'. Inr (fst out, snd out) = Inr (h', s')" by blast
  qed
qed

theorem unrecognised_id_not_stored_witness:
  "(\<exists>h'. process_receipt demo_lib demo_rand 0 None demo_heap one_customer_shared
             = Inr (h', one_customer_shared)
        \<and> receipt.ingredients (h' 0) = [''chicken'', ''tomato''])
   \<and> ''unknown'' \<notin> fst ` set (receipts one_customer_shared)
   \<and> (\<exists>h'. process_receipt demo_lib demo_rand 0 (Some ''unknown'') demo_heap one_customer_shared
              = Inr (h', one_customer_shared))
   \<and> (\<exists>h' s'. process_receipt demo_lib demo_rand 0 (Some ''c1'') demo_heap one_customer_shared
                 = Inr (h', s')
         \<and> s' \<noteq> one_customer_shared \<and> ''c1'' \<in> fst ` set (receipts one_customer_shared)
         \<and> s' = one_customer_shared\<lparr>receipts :=
                    AList.map_entry ''c1'' (\<lambda>refs. refs @ [0]) (receipts one_customer_shared)\<rparr>)"
proof -
  note T1 = unrecognised_id_not_stored [of None one_customer_shared demo_lib demo_rand 0 demo_heap]
  note T2 = unrecognised_id_not_stored [of "Some ''unknown''" one_customer_shared demo_lib
               demo_rand 0 demo_heap]
  note T3 = unrecognised_id_not_stored [of "Some ''c1''" one_customer_shared demo_lib
               demo_rand 0 demo_heap]
  have k: "''unknown'' \<notin> fst ` set (receipts one_customer_shared)"
    by (simp add: one_customer_shared_eq)
  have a1: "\<exists>h'. process_receipt demo_lib demo_rand 0 None demo_heap one_customer_shared
             = Inr (h', one_customer_shared)
        \<and> receipt.ingredients (h' 0) = [''chicken'', ''tomato'']"
  proof -
    from T1 [THEN conjunct1] obtain h' where
      "process_receipt demo_lib demo_rand 0 None demo_heap one_customer_shared
         = Inr (h', one_customer_shared)"
      "receipt.ingredients (h' 0) =
         sample_from (\<lambda>i. ints demo_rand (Suc i)) sample_ingredients (randint 2 5 (ints demo_rand 0))"
      by blast
    then show ?thesis unfolding demo_draw by blast
  qed
  have a2: "\<exists>h'. process_receipt demo_lib demo_rand 0 (Some ''unknown'') demo_heap one_customer_shared
              = Inr (h', one_customer_shared)"
  proof -
    from T2 [THEN conjunct1] k obtain h' where
      "process_receipt demo_lib demo_rand 0 (Some ''unknown'') demo_heap one_customer_shared
         = Inr (h', one_customer_shared)"
      by blast
    then show ?thesis by blast
  qed
  have a3: "\<exists>h' s'. process_receipt demo_lib demo_rand 0 (Some ''c1'') demo_heap one_customer_shared
                 = Inr (h', s')
         \<and> s' \<noteq> one_customer_shared \<and> ''c1'' \<in> fst ` set (receipts one_customer_shared)
         \<and> s' = one_customer_shared\<lparr>receipts :=
                    AList.map_entry ''c1'' (\<lambda>refs. refs @ [0]) (receipts one_customer_shared)\<rparr>"
  proof -
    from T3 [THEN conjunct2, THEN conjunct2] obtain h' s' where
      run: "process_receipt demo_lib demo_rand 0 (Some ''c1'') demo_heap one_customer_shared
              = Inr (h', s')"
      by blast
    have "snd (process_sampled demo_lib (uniform_2f demo_rand) [''chicken'', ''tomato'']
                 0 (Some ''c1'') demo_heap one_customer_shared) \<noteq> one_customer_shared"
      unfolding process_sampled_system by (simp add: one_customer_shared_eq)
    with run have diff: "s' \<noteq> one_customer_shared"
      unfolding process_receipt_eq demo_draw by auto
    from T3 [THEN conjunct2, THEN conjunct1, rule_format, of h' s'] run diff
    obtain cid where "Some ''c1'' = Some cid" "cid \<in> fst ` set (receipts one_customer_shared)"
      "s' = one_customer_shared\<lparr>receipts :=
              AList.map_entry cid (\<lambda>refs. refs @ [0]) (receipts one_customer_shared)\<rparr>"
      by blast
    with run diff show ?thesis by auto
  qed
  show ?thesis using a1 k a2 a3 by (intro conjI)
qed

text \<open>
  Claim C10. When the empty string is a key of the receipt mapping, \<open>process_receipt\<close>
  called with the empty string as customer id does what the call without a customer id
  does: it returns normally, appends nothing and leaves the system, its receipt mapping
  included, unchanged; the only receipt object written is the one passed.
\<close>

theorem empty_id_never_stored:
  "[] \<in> fst ` set (receipts s) \<Longrightarrow>
     process_receipt L rnd a (Some []) h s = process_receipt L rnd a None h s
     \<and> (\<exists>h'. process_receipt L rnd a (Some []) h s = Inr (h', s)
            \<and> (\<forall>b. b \<noteq> a \<longrightarrow> h' b = h b))
     \<and> (\<forall>h' s'. process_receipt L rnd a (Some []) h s = Inr (h', s') \<longrightarrow>
           receipts s' = receipts s \<and> map_of (receipts s') [] = map_of (receipts s) [])"
proof -
  have same: "process_sampled L pt smp a (Some []) h s = process_sampled L pt smp a None h s"
    for pt smp
    unfolding process_sampled_def Let_def by simp
  have unchanged: "snd (process_sampled L pt smp a None h s) = s" for pt smp
    unfolding process_sampled_system by simp
  have frame: "\<forall>b. b \<noteq> a \<longrightarrow> fst (process_sampled L pt smp a None h s) b = h b" for pt smp
    unfolding process_sampled_heap by simp
  show ?thesis
    unfolding process_receipt_eq same using unchanged frame by (auto simp: prod_eq_iff)
qed

theorem empty_id_never_stored_witness:
  "[] \<in> fst ` set (receipts anonymous_only)
   \<and> process_receipt demo_lib demo_rand 0 (Some []) demo_heap anonymous_only
       = process_receipt demo_lib demo_rand 0 None demo_heap anonymous_only
   \<and> (\<exists>h'. process_receipt demo_lib demo_rand 0 (Some []) demo_heap anonymous_only
              = Inr (h', anonymous_only))"
proof -
  have k: "[] \<in> fst ` set (receipts anonymous_only)"
    by (simp add: anonymous_only_eq)
  from empty_id_never_stored [OF k, of demo_lib demo_rand 0 demo_heap] k show ?thesis
    by blast
qed

subsection \<open>Lookup by email and authentication\<close>

lemma scan_email_find:
  "map_option snd (scan_email e cs) = find (\<lambda>c. lower (email c) = lower e) cs"
  by (induction cs) (auto simp: option.map_comp comp_def split_beta)

lemma scan_email_None:
  "scan_email e cs = None \<longleftrightarrow> (\<forall>c\<in>set cs. lower (email c) \<noteq> lower e)"
  by (induction cs) auto

lemma scan_email_Some:
  "scan_email e cs = Some (i, c) \<Longrightarrow>
     i < length cs \<and> cs ! i = c \<and> lower (email c) = lower e
     \<and> (\<forall>j<i. lower (email (cs ! j)) \<noteq> lower e)"
proof (induction cs arbitrary: i)
  case Nil
  then show ?case by simp
next
  case (Cons a cs)
  show ?case
  proof (cases "lower (email a) = lower e")
    case True
    with Cons.prems show ?thesis by simp
  next
    case False
    with Cons.prems obtain k where k: "scan_email e cs = Some (k, c)" "i = Suc k"
      by auto
    from Cons.IH [OF k(1)] False k(2) show ?thesis
      by (auto simp: less_Suc_eq_0_disj)
  qed
qed

lemma scan_email_update:
  "scan_email e cs = Some (i, c) \<Longrightarrow> email c' = email c \<Longrightarrow>
     scan_email e (cs[i := c']) = Some (i, c')"
proof (induction cs arbitrary: i)
  case Nil
  then show ?case by simp
next
  case (Cons a cs)
  show ?case
  proof (cases "lower (email a) = lower e")
    case True
    with Cons.prems show ?thesis by simp
  next
    case False
    with Cons.prems obtain k where k: "scan_email e cs = Some (k, c)" "i = Suc k"
      by auto
    from Cons.IH [OF k(1) Cons.prems(2)] False k(2) show ?thesis
      by simp
  qed
qed

lemma get_customer_by_email_Some:
  "get_customer_by_email e s = Some c \<longleftrightarrow> (\<exists>i. scan_email e (customers s) = Some (i, c))"
  by (auto simp: get_customer_by_email_def)

lemma verify_after_set: "verify_password L p (set_password L rnd p c)"
  by (simp add: verify_password_def set_password_def not_str_def hash_password_def
      token_hex16_nonempty hexdigest_nonempty)

lemma verify_password_str_encoded:
  "encode p = Inr plain \<Longrightarrow> verify_password_str L p c = Inr (verify_password L plain c)"
  by (simp add: verify_password_str_def verify_password_def ebind_def)

lemma verify_password_str_unset:
  "not_str (password_hash c) \<or> not_str (salt c) \<Longrightarrow> verify_password_str L p c = Inr False"
  by (simp add: verify_password_str_def)

lemma encode_surrogate:
  "encode password_surrogate = Inl (UnicodeEncodeError ''surrogates not allowed'')"
  by (simp add: encode_def utf8_char_def ebind_def password_surrogate_def)

text \<open>
  What \<open>authenticate_customer\<close> does when hashing cannot raise. Take a password that
  \<^verbatim>\<open>str.encode()\<close> accepts, or a customer found who has no password hash or no
  salt stored. Then a run with an email that no customer has, and a run with the email
  of a customer whose password does not verify, return the same result, \<open>None\<close>, and
  each leaves its system as it was. When the email is found and the password verifies,
  the customer found gets \<open>last_login\<close> set to the current time, in the list of the
  system, and is returned.
\<close>

theorem authenticate_customer_outcomes:
  "(get_customer_by_email ea sa = None \<and> get_customer_by_email eb sb = Some cb
      \<and> encode pb = Inr plain \<and> \<not> verify_password L plain cb \<longrightarrow>
        fst (authenticate_customer L ta ea pa sa) = fst (authenticate_customer L tb eb pb sb)
      \<and> authenticate_customer L ta ea pa sa = (Inr None, sa)
      \<and> authenticate_customer L tb eb pb sb = (Inr None, sb))
   \<and> (get_customer_by_email ea sa = None \<and> get_customer_by_email ec sc = Some cc
      \<and> (not_str (password_hash cc) \<or> not_str (salt cc)) \<longrightarrow>
        fst (authenticate_customer L ta ea pa sa) = fst (authenticate_customer L tc ec pc sc)
      \<and> authenticate_customer L tc ec pc sc = (Inr None, sc))
   \<and> (encode p = Inr plain' \<longrightarrow>
        verify_password_str L p c = Inr (verify_password L plain' c))
   \<and> (get_customer_by_email e s = Some c \<and> encode p = Inr plain' \<and> verify_password L plain' c \<longrightarrow>
        (\<exists>i<length (customers s). customers s ! i = c
           \<and> authenticate_customer L now e p s =
               (Inr (Some (c\<lparr>last_login := Some now\<rparr>)),
                s\<lparr>customers := (customers s)[i := c\<lparr>last_login := Some now\<rparr>]\<rparr>))
        \<and> get_customer_by_email e (snd (authenticate_customer L now e p s))
             = Some (c\<lparr>last_login := Some now\<rparr>)
        \<and> fst (authenticate_customer L now e p s) = Inr (Some (c\<lparr>last_login := Some now\<rparr>)))"
proof -
  have unknown: "authenticate_customer L t e' p' s' = (Inr None, s')"
    if "get_customer_by_email e' s' = None" for t e' p' and s' :: "('a, 'r) receipt_system_of"
    using that by (simp add: authenticate_customer_def get_customer_by_email_def)
  have refused: "authenticate_customer L t e' p' s' = (Inr None, s')"
    if "get_customer_by_email e' s' = Some c'" "verify_password_str L p' c' = Inr False"
    for t e' p' c' and s' :: "('a, 's) receipt_system_of"
  proof -
    from that(1) obtain i where "scan_email e' (customers s') = Some (i, c')"
      by (auto simp: get_customer_by_email_Some)
    with that(2) show ?thesis
      by (simp add: authenticate_customer_def)
  qed
  have part1: "fst (authenticate_customer L ta ea pa sa) = fst (authenticate_customer L tb eb pb sb)
      \<and> authenticate_customer L ta ea pa sa = (Inr None, sa)
      \<and> authenticate_customer L tb eb pb sb = (Inr None, sb)"
    if a: "get_customer_by_email ea sa = None \<and> get_customer_by_email eb sb = Some cb
      \<and> encode pb = Inr plain \<and> \<not> verify_password L plain cb"
  proof -
    from a have "verify_password_str L pb cb = Inr False"
      by (simp add: verify_password_str_encoded)
    with a have "authenticate_customer L tb eb pb sb = (Inr None, sb)"
      by (simp add: refused)
    moreover from a have "authenticate_customer L ta ea pa sa = (Inr None, sa)"
      by (simp add: unknown)
    ultimately show ?thesis by simp
  qed
  have part2: "fst (authenticate_customer L ta ea pa sa) = fst (authenticate_customer L tc ec pc sc)
      \<and> authenticate_customer L tc ec pc sc = (Inr None, sc)"
    if a: "get_customer_by_email ea sa = None \<and> get_customer_by_email ec sc = Some cc
      \<and> (not_str (password_hash cc) \<or> not_str (salt cc))"
  proof -
    from a have "verify_password_str L pc cc = Inr False"
      by (simp add: verify_password_str_unset)
    with a have "authenticate_customer L tc ec pc sc = (Inr None, sc)"
      by (simp add: refused)
    moreover from a have "authenticate_customer L ta ea pa sa = (Inr None, sa)"
      by (simp add: unknown)
    ultimately show ?thesis by simp
  qed
  have part3: "verify_password_str L p c = Inr (verify_password L plain' c)"
    if "encode p = Inr plain'"
    using that by (rule verify_password_str_encoded)
  have part4: "(\<exists>i<length (customers s). customers s ! i = c
           \<and> authenticate_customer L now e p s =
               (Inr (Some (c\<lparr>last_login := Some now\<rparr>)),
                s\<lparr>customers := (customers s)[i := c\<lparr>last_login := Some now\<rparr>]\<rparr>))
        \<and> get_customer_by_email e (snd (authenticate_customer L now e p s))
             = Some (c\<lparr>last_login := Some now\<rparr>)
        \<and> fst (authenticate_customer L now e p s) = Inr (Some (c\<lparr>last_login := Some now\<rparr>))"
    if a: "get_customer_by_email e s = Some c \<and> encode p = Inr plain' \<and> verify_password L plain' c"
  proof -
    from a obtain i where i: "scan_email e (customers s) = Some (i, c)"
      by (auto simp: get_customer_by_email_Some)
    from a have "verify_password_str L p c = Inr True"
      by (simp add: verify_password_str_encoded)
    with i have run: "authenticate_customer L now e p s =
               (Inr (Some (c\<lparr>last_login := Some now\<rparr>)),
                s\<lparr>customers := (customers s)[i := c\<lparr>last_login := Some now\<rparr>]\<rparr>)"
      by (simp add: authenticate_customer_def record_login_def Let_def)
    from scan_email_Some [OF i] run
    have "\<exists>i<length (customers s). customers s ! i = c
           \<and> authenticate_customer L now e p s =
               (Inr (Some (c\<lparr>last_login := Some now\<rparr>)),
                s\<lparr>customers := (customers s)[i := c\<lparr>last_login := Some now\<rparr>]\<rparr>)"
      by blast
    moreover from scan_email_update [OF i, of "c\<lparr>last_login := Some now\<rparr>"]
    have "get_customer_by_email e (snd (authenticate_customer L now e p s))
             = Some (c\<lparr>last_login := Some now\<rparr>)"
      by (simp add: run get_customer_by_email_def)
    moreover from run
    have "fst (authenticate_customer L now e p s) = Inr (Some (c\<lparr>last_login := Some now\<rparr>))"
      by simp
    ultimately show ?thesis by (intro conjI)
  qed
  show ?thesis
  proof (intro conjI)
    from part1 show "get_customer_by_email ea sa = None \<and> get_customer_by_email eb sb = Some cb
      \<and> encode pb = Inr plain \<and> \<not> verify_password L plain cb \<longrightarrow>
        fst (authenticate_customer L ta ea pa sa) = fst (authenticate_customer L tb eb pb sb)
      \<and> authenticate_customer L ta ea pa sa = (Inr None, sa)
      \<and> authenticate_customer L tb eb pb sb = (Inr None, sb)"
      by (rule impI)
    from part2 show "get_customer_by_email ea sa = None \<and> get_customer_by_email ec sc = Some cc
      \<and> (not_str (password_hash cc) \<or> not_str (salt cc)) \<longrightarrow>
        fst (authenticate_customer L ta ea pa sa) = fst (authenticate_customer L tc ec pc sc)
      \<and> authenticate_customer L tc ec pc sc = (Inr None, sc)"
      by (rule impI)
    from part3 show "encode p = Inr plain' \<longrightarrow>
        verify_password_str L p c = Inr (verify_password L plain' c)"
      by (rule impI)
    from part4 show "get_customer_by_email e s = Some c \<and> encode p = Inr plain'
        \<and> verify_password L plain' c \<longrightarrow>
        (\<exists>i<length (customers s). customers s ! i = c
           \<and> authenticate_customer L now e p s =
               (Inr (Some (c\<lparr>last_login := Some now\<rparr>)),
                s\<lparr>customers := (customers s)[i := c\<lparr>last_login := Some now\<rparr>]\<rparr>))
        \<and> get_customer_by_email e (snd (authenticate_customer L now e p s))
             = Some (c\<lparr>last_login := Some now\<rparr>)
        \<and> fst (authenticate_customer L now e p s) = Inr (Some (c\<lparr>last_login := Some now\<rparr>))"
      by (rule impI)
  qed
qed

theorem authenticate_customer_outcomes_witness:
  "get_customer_by_email ''nobody@example.com'' alice_registered = None
   \<and> get_customer_by_email ''ALICE@example.com'' alice_registered = Some alice_with_password
   \<and> encode password_wrong = Inr ''wrong''
   \<and> \<not> verify_password demo_lib ''wrong'' alice_with_password
   \<and> authenticate_customer demo_lib 20 ''nobody@example.com'' password_p1 alice_registered
        = (Inr None, alice_registered)
   \<and> authenticate_customer demo_lib 20 ''ALICE@example.com'' password_wrong alice_registered
        = (Inr None, alice_registered)
   \<and> get_customer_by_email ''alice@example.com'' one_customer = Some alice
   \<and> not_str (password_hash alice)
   \<and> authenticate_customer demo_lib 20 ''alice@example.com'' password_surrogate one_customer
        = (Inr None, one_customer)
   \<and> encode password_p1 = Inr ''p1''
   \<and> verify_password_str demo_lib password_p1 alice_with_password = Inr True
   \<and> verify_password demo_lib ''p1'' alice_with_password
   \<and> fst (authenticate_customer demo_lib 20 ''ALICE@example.com'' password_p1 alice_registered)
        = Inr (Some (alice_with_password\<lparr>last_login := Some 20\<rparr>))
   \<and> get_customer_by_email ''ALICE@example.com''
        (snd (authenticate_customer demo_lib 20 ''ALICE@example.com'' password_p1 alice_registered))
        = Some (alice_with_password\<lparr>last_login := Some 20\<rparr>)"
proof -
  have h1: "get_customer_by_email ''nobody@example.com'' alice_registered = None"
    by code_simp
  have h2: "get_customer_by_email ''ALICE@example.com'' alice_registered = Some alice_with_password"
    by code_simp
  have h3: "encode password_wrong = Inr ''wrong''"
    by code_simp
  have h4: "\<not> verify_password demo_lib ''wrong'' alice_with_password"
    by code_simp
  have h5: "get_customer_by_email ''alice@example.com'' one_customer = Some alice"
    by code_simp
  have h6: "not_str (password_hash alice)"
    by (simp add: not_str_def alice_def)
  have h7: "encode password_p1 = Inr ''p1''"
    by code_simp
  have h8: "verify_password demo_lib ''p1'' alice_with_password"
    unfolding alice_with_password_def by (rule verify_after_set)
  note T = authenticate_customer_outcomes [where ea = "''nobody@example.com''"
      and sa = alice_registered and eb = "''ALICE@example.com''" and sb = alice_registered
      and cb = alice_with_password and L = demo_lib and pb = password_wrong
      and plain = "''wrong''" and pa = password_p1 and ta = 20 and tb = 20
      and ec = "''alice@example.com''" and sc = one_customer and cc = alice
      and pc = password_surrogate and tc = 20
      and e = "''ALICE@example.com''" and s = alice_registered
      and c = alice_with_password and p = password_p1 and plain' = "''p1''" and now = 20]
  from T [THEN conjunct1] h1 h2 h3 h4
  have fail: "authenticate_customer demo_lib 20 ''nobody@example.com'' password_p1 alice_registered
        = (Inr None, alice_registered)"
    "authenticate_customer demo_lib 20 ''ALICE@example.com'' password_wrong alice_registered
        = (Inr None, alice_registered)"
    by blast+
  from T [THEN conjunct2, THEN conjunct1] h1 h5 h6
  have unset: "authenticate_customer demo_lib 20 ''alice@example.com'' password_surrogate one_customer
        = (Inr None, one_customer)"
    by blast
  from T [THEN conjunct2, THEN conjunct2, THEN conjunct1] h7 h8
  have ver: "verify_password_str demo_lib password_p1 alice_with_password = Inr True"
    by simp
  from T [THEN conjunct2, THEN conjunct2, THEN conjunct2] h2 h7 h8
  have ok: "fst (authenticate_customer demo_lib 20 ''ALICE@example.com'' password_p1 alice_registered)
        = Inr (Some (alice_with_password\<lparr>last_login := Some 20\<rparr>))"
    "get_customer_by_email ''ALICE@example.com''
        (snd (authenticate_customer demo_lib 20 ''ALICE@example.com'' password_p1 alice_registered))
        = Some (alice_with_password\<lparr>last_login := Some 20\<rparr>)"
    by blast+
  from h1 h2 h3 h4 fail h5 h6 unset h7 ver h8 ok show ?thesis
    by (intro conjI)
qed

text \<open>
  Claim C7. The two failure runs of \<open>authenticate_customer\<close>, one with an email that no
  customer has and one with a known email and a password that is not the customer's,
  are to return the identical result. They do not for the password made of the lone
  surrogate \<open>0xD800\<close>, a \<^verbatim>\<open>str\<close> that is not the password of anyone: with the
  email of nobody the call returns \<open>None\<close>, as the claim says, and with the email of a
  customer who has a password set it raises \<^verbatim>\<open>UnicodeEncodeError\<close>, out of
  \<^verbatim>\<open>(password + salt).encode()\<close>, which tells that the email is registered.
\<close>

theorem authenticate_customer_raises_for_known_email:
  "get_customer_by_email ''nobody@example.com'' alice_registered = None
   \<and> get_customer_by_email ''alice@example.com'' alice_registered = Some alice_with_password
   \<and> \<not> not_str (password_hash alice_with_password)
   \<and> \<not> not_str (salt alice_with_password)
   \<and> encode password_surrogate = Inl (UnicodeEncodeError ''surrogates not allowed'')
   \<and> authenticate_customer demo_lib 20 ''nobody@example.com'' password_surrogate alice_registered
        = (Inr None, alice_registered)
   \<and> authenticate_customer demo_lib 20 ''alice@example.com'' password_surrogate alice_registered
        = (Inl (UnicodeEncodeError ''surrogates not allowed''), alice_registered)
   \<and> fst (authenticate_customer demo_lib 20 ''nobody@example.com'' password_surrogate
             alice_registered)
        \<noteq> fst (authenticate_customer demo_lib 20 ''alice@example.com'' password_surrogate
                 alice_registered)"
proof -
  have s1: "scan_email ''alice@example.com'' (customers alice_registered)
              = Some (0, alice_with_password)"
    by code_simp
  have s2: "scan_email ''nobody@example.com'' (customers alice_registered) = None"
    by code_simp
  have pw: "\<not> not_str (password_hash alice_with_password)"
    "\<not> not_str (salt alice_with_password)"
    by (simp_all add: alice_with_password_def set_password_def not_str_def
          token_hex16_nonempty hexdigest_nonempty hash_password_def)
  have known: "authenticate_customer demo_lib 20 ''alice@example.com'' password_surrogate
                 alice_registered
        = (Inl (UnicodeEncodeError ''surrogates not allowed''), alice_registered)"
    by (simp add: authenticate_customer_def s1 verify_password_str_def pw encode_surrogate
          ebind_def)
  have unknown: "authenticate_customer demo_lib 20 ''nobody@example.com'' password_surrogate
                   alice_registered = (Inr None, alice_registered)"
    by (simp add: authenticate_customer_def s2)
  have g1: "get_customer_by_email ''nobody@example.com'' alice_registered = None"
    by (simp add: get_customer_by_email_def s2)
  have g2: "get_customer_by_email ''alice@example.com'' alice_registered = Some alice_with_password"
    by (simp add: get_customer_by_email_def s1)
  have diff: "fst (authenticate_customer demo_lib 20 ''nobody@example.com'' password_surrogate
             alice_registered)
        \<noteq> fst (authenticate_customer demo_lib 20 ''alice@example.com'' password_surrogate
                 alice_registered)"
    by (simp add: known unknown)
  from g1 g2 pw encode_surrogate unknown known diff show ?thesis
    by (intro conjI)
qed

lemma find_append_first:
  "find P xs = Some x \<Longrightarrow> find P (xs @ ys) = Some x"
  by (induction xs) (auto split: if_splits)

text \<open>
  Claim C3. Registration compares emails by exact equality: a customer whose email is,
  character for character, the email of a customer in the list is refused with a
  \<^verbatim>\<open>ValueError\<close> (that of the duplicate email when the id is new), while a customer
  whose id is new and whose email is exactly equal to none in the list is registered,
  also when that email differs from one in the list in letter case only. Lookup
  compares lower-cased emails: \<open>get_customer_by_email\<close> returns the first customer of the
  list, in insertion order, whose lower-cased email is the lower-cased query, and
  \<open>None\<close>, not an error, when there is none; so after a pair differing in case only has
  been registered, it returns the customer registered first.
\<close>

theorem email_exact_at_registration_folded_at_lookup:
  "((\<exists>c'\<in>set (customers s). email c' = email c) \<longrightarrow>
       snd (register_customer c s) = s
       \<and> (fst (register_customer c s) =
             Some (ValueError (''Customer with ID '' @ customer_id c @ '' already exists''))
          \<or> fst (register_customer c s) =
             Some (ValueError (''Customer with email '' @ email c @ '' already exists'')))
       \<and> ((\<forall>c'\<in>set (customers s). customer_id c' \<noteq> customer_id c) \<longrightarrow>
            fst (register_customer c s) =
              Some (ValueError (''Customer with email '' @ email c @ '' already exists''))))
   \<and> ((\<forall>c'\<in>set (customers s). customer_id c' \<noteq> customer_id c \<and> email c' \<noteq> email c) \<longrightarrow>
        register_customer c s =
          (None, s\<lparr>customers := customers s @ [c],
                    receipts := AList.update (customer_id c) [] (receipts s)\<rparr>)
        \<and> (\<forall>c0. get_customer_by_email (email c) s = Some c0 \<longrightarrow>
              get_customer_by_email (email c) (snd (register_customer c s)) = Some c0))
   \<and> get_customer_by_email e s = find (\<lambda>c'. lower (email c') = lower e) (customers s)
   \<and> (get_customer_by_email e s = None \<longleftrightarrow>
        (\<forall>c'\<in>set (customers s). lower (email c') \<noteq> lower e))
   \<and> (\<forall>c0. get_customer_by_email e s = Some c0 \<longleftrightarrow>
        (\<exists>i<length (customers s). customers s ! i = c0 \<and> lower (email c0) = lower e
           \<and> (\<forall>j<i. lower (email (customers s ! j)) \<noteq> lower e)))"
proof -
  have lookup: "get_customer_by_email e' s' = find (\<lambda>c'. lower (email c') = lower e') (customers s')"
    for e' and s' :: "('a, 'b) receipt_system_of"
    by (simp add: get_customer_by_email_def scan_email_find)
  have dup: "snd (register_customer c s) = s
       \<and> (fst (register_customer c s) =
             Some (ValueError (''Customer with ID '' @ customer_id c @ '' already exists''))
          \<or> fst (register_customer c s) =
             Some (ValueError (''Customer with email '' @ email c @ '' already exists'')))
       \<and> ((\<forall>c'\<in>set (customers s). customer_id c' \<noteq> customer_id c) \<longrightarrow>
            fst (register_customer c s) =
              Some (ValueError (''Customer with email '' @ email c @ '' already exists'')))"
    if "\<exists>c'\<in>set (customers s). email c' = email c"
    using that by (auto simp: register_customer_def list_ex_iff)
  have fresh: "register_customer c s =
          (None, s\<lparr>customers := customers s @ [c],
                    receipts := AList.update (customer_id c) [] (receipts s)\<rparr>)"
    if "\<forall>c'\<in>set (customers s). customer_id c' \<noteq> customer_id c \<and> email c' \<noteq> email c"
    using that by (auto simp: register_customer_def list_ex_iff Let_def)
  have first_wins: "get_customer_by_email (email c) (snd (register_customer c s)) = Some c0"
    if "\<forall>c'\<in>set (customers s). customer_id c' \<noteq> customer_id c \<and> email c' \<noteq> email c"
      and "get_customer_by_email (email c) s = Some c0" for c0
    using that(2) by (simp add: fresh [OF that(1)] lookup find_append_first)
  have none: "get_customer_by_email e s = None \<longleftrightarrow>
        (\<forall>c'\<in>set (customers s). lower (email c') \<noteq> lower e)"
    by (simp add: get_customer_by_email_def scan_email_None)
  have some: "get_customer_by_email e s = Some c0 \<longleftrightarrow>
        (\<exists>i<length (customers s). customers s ! i = c0 \<and> lower (email c0) = lower e
           \<and> (\<forall>j<i. lower (email (customers s ! j)) \<noteq> lower e))" for c0
    unfolding lookup find_Some_iff by auto
  from dup fresh first_wins lookup none some show ?thesis
    by (intro conjI impI allI) blast+
qed

theorem email_exact_at_registration_folded_at_lookup_witness:
  "customers one_customer = [alice]
   \<and> email alice = email (alice\<lparr>customer_id := ''c2''\<rparr>)
   \<and> customer_id alice \<noteq> customer_id (alice\<lparr>customer_id := ''c2''\<rparr>)
   \<and> fst (register_customer (alice\<lparr>customer_id := ''c2''\<rparr>) one_customer) =
        Some (ValueError ''Customer with email alice@example.com already exists'')
   \<and> customer_id alice \<noteq> customer_id alice_upper \<and> email alice \<noteq> email alice_upper
   \<and> lower (email alice) = lower (email alice_upper)
   \<and> fst (register_customer alice_upper one_customer) = None
   \<and> get_customer_by_email ''Alice@Example.COM'' one_customer = Some alice
   \<and> get_customer_by_email ''Alice@Example.COM'' (snd (register_customer alice_upper one_customer))
        = Some alice
   \<and> lower (email alice) \<noteq> lower ''nobody@example.com''
   \<and> get_customer_by_email ''nobody@example.com'' one_customer = None"
proof -
  have d1: "\<exists>c'\<in>set (customers one_customer). email c' = email (alice\<lparr>customer_id := ''c2''\<rparr>)"
    by (simp add: one_customer_eq)
  have d2: "\<forall>c'\<in>set (customers one_customer). customer_id c' \<noteq> customer_id (alice\<lparr>customer_id := ''c2''\<rparr>)"
    by (simp add: one_customer_eq alice_def)
  have f1: "\<forall>c'\<in>set (customers one_customer).
          customer_id c' \<noteq> customer_id alice_upper \<and> email c' \<noteq> email alice_upper"
    by (simp add: one_customer_eq alice_def alice_upper_def)
  have g1: "get_customer_by_email (email alice_upper) one_customer = Some alice"
    by code_simp
  have n1: "\<forall>c'\<in>set (customers one_customer). lower (email c') \<noteq> lower ''nobody@example.com''"
    by code_simp
  have em: "email alice_upper = ''Alice@Example.COM''"
    "email (alice\<lparr>customer_id := ''c2''\<rparr>) = ''alice@example.com''"
    by (simp_all add: alice_upper_def alice_def)
  note T1 = email_exact_at_registration_folded_at_lookup
              [of one_customer "alice\<lparr>customer_id := ''c2''\<rparr>" "''nobody@example.com''"]
  note T2 = email_exact_at_registration_folded_at_lookup
              [of one_customer alice_upper "''nobody@example.com''"]
  from T1 [THEN conjunct1] d1 d2
  have r1: "fst (register_customer (alice\<lparr>customer_id := ''c2''\<rparr>) one_customer) =
        Some (ValueError (''Customer with email '' @ email (alice\<lparr>customer_id := ''c2''\<rparr>) @ '' already exists''))"
    by blast
  from T2 [THEN conjunct2, THEN conjunct1] f1 g1
  have r2': "register_customer alice_upper one_customer =
          (None, one_customer\<lparr>customers := customers one_customer @ [alice_upper],
                    receipts := AList.update (customer_id alice_upper) [] (receipts one_customer)\<rparr>)"
    "get_customer_by_email (email alice_upper) (snd (register_customer alice_upper one_customer)) = Some alice"
    by blast+
  have r2: "fst (register_customer alice_upper one_customer) = None"
    "get_customer_by_email (email alice_upper) (snd (register_customer alice_upper one_customer)) = Some alice"
    using r2' by (simp_all del: snd_conv)
  from T2 [THEN conjunct2, THEN conjunct2, THEN conjunct2, THEN conjunct1] n1
  have r3: "get_customer_by_email ''nobody@example.com'' one_customer = None"
    by blast
  have cs: "customers one_customer = [alice]"
    by (simp add: one_customer_eq)
  have lo: "lower (email alice) = lower (email alice_upper)"
    by code_simp
  from d1 d2 r1 f1 r2 g1 n1 r3 lo show ?thesis
    unfolding em cs by (intro conjI) simp_all
qed

subsection \<open>Recommendations\<close>

lemma fold_extend: "fold (\<lambda>x acc. acc @ f x) xs a = a @ concat (map f xs)"
  by (induction xs arbitrary: a) simp_all

lemma all_menu_items_concat: "all_menu_items s = concat (map menu_items (stores s))"
  by (simp add: all_menu_items_def fold_extend)

lemma fold_union: "fold (\<lambda>x acc. acc \<union> f x) xs A = A \<union> (\<Union>x\<in>set xs. f x)"
  by (induction xs arbitrary: A) auto

lemma customer_ingredients_union:
  "customer_ingredients c s =
     set (favorite_food c) \<union>
     (\<Union>r\<in>set (case map_of (receipts s) (customer_id c) of None \<Rightarrow> [] | Some rs \<Rightarrow> rs).
        set (receipt.ingredients r))"
  by (simp add: customer_ingredients_def fold_union split: option.splits)

lemma finite_customer_ingredients: "finite (customer_ingredients c s)"
  by (cases "map_of (receipts s) (customer_id c)") (simp_all add: customer_ingredients_union)

lemma fold_select: "fold (\<lambda>x acc. if P x then acc @ [x] else acc) xs a = a @ filter P xs"
  by (induction xs arbitrary: a) simp_all

lemma matching_items_filter:
  "matching_items S items = filter (\<lambda>x. S \<inter> set (menu_item.ingredients x) \<noteq> {}) items"
proof -
  have "(\<lambda>x :: menu_item. \<exists>ingredient\<in>S. ingredient \<in> set (menu_item.ingredients x))
          = (\<lambda>x. S \<inter> set (menu_item.ingredients x) \<noteq> {})"
    by (rule ext) auto
  then show ?thesis
    by (simp add: matching_items_def fold_select)
qed

lemma match_count_card:
  "finite S \<Longrightarrow> match_count S x = card (S \<inter> set (menu_item.ingredients x))"
proof -
  assume fin: "finite S"
  have "match_count S x = (\<Sum>ing\<in>S \<inter> set (menu_item.ingredients x). 1)"
    unfolding match_count_def
    by (rule sum.inter_restrict [OF fin, symmetric])
  then show ?thesis by simp
qed

lemma mset_sort_reverse: "mset (sort_reverse f xs) = mset xs"
  by (simp add: sort_reverse_def)

lemma sorted_sort_reverse: "sorted_wrt (\<lambda>a b. f b \<le> f a) (sort_reverse f xs)"
proof -
  have "sorted (map f (sort_key f (rev xs)))" by simp
  then have "sorted_wrt (\<lambda>a b. f a \<le> f b) (sort_key f (rev xs))"
    by (simp add: sorted_map)
  then show ?thesis
    by (simp add: sort_reverse_def sorted_wrt_rev)
qed

lemma stable_sort_reverse:
  "filter (\<lambda>y. f y = k) (sort_reverse f xs) = filter (\<lambda>y. f y = k) xs"
  by (simp add: sort_reverse_def rev_filter [symmetric] sort_key_stable)

lemma mset_remove_nth:
  "i < length xs \<Longrightarrow> add_mset (xs ! i) (mset (take i xs @ drop (Suc i) xs)) = mset xs"
proof -
  assume "i < length xs"
  then have "xs = take i xs @ xs ! i # drop (Suc i) xs"
    by (rule id_take_nth_drop)
  then have "mset xs = mset (take i xs @ xs ! i # drop (Suc i) xs)"
    by simp
  then show ?thesis by simp
qed

lemma mset_sample_from:
  "k \<le> length pool \<Longrightarrow> mset (sample_from g pool k) \<subseteq># mset pool"
proof (induction k arbitrary: g pool)
  case 0
  then show ?case by simp
next
  case (Suc k)
  define i where "i = g 0 mod length pool"
  define rest where "rest = take i pool @ drop (Suc i) pool"
  from Suc.prems have "0 < length pool" by linarith
  then have i: "i < length pool" unfolding i_def by (rule mod_less_divisor)
  then have len: "length rest = length pool - 1" by (simp add: rest_def)
  with Suc.prems have "k \<le> length rest" by simp
  then have "mset (sample_from (\<lambda>j. g (Suc j)) rest k) \<subseteq># mset rest"
    by (rule Suc.IH)
  then have "add_mset (pool ! i) (mset (sample_from (\<lambda>j. g (Suc j)) rest k))
               \<subseteq># add_mset (pool ! i) (mset rest)"
    by simp
  also have "add_mset (pool ! i) (mset rest) = mset pool"
    unfolding rest_def using i by (rule mset_remove_nth)
  finally show ?case
    by (simp add: Let_def i_def rest_def)
qed

lemma random_sample_ok:
  assumes "k \<le> length pool"
  shows "\<exists>picked. random_sample g pool k = Inr picked \<and> length picked = k
           \<and> mset picked \<subseteq># mset pool \<and> set picked \<subseteq> set pool"
proof -
  from assms have "random_sample g pool k = Inr (sample_from g pool k)"
    by (simp add: random_sample_def)
  moreover have "length (sample_from g pool k) = k"
    by (rule length_sample_from)
  moreover from assms have sub: "mset (sample_from g pool k) \<subseteq># mset pool"
    by (rule mset_sample_from)
  moreover from sub have "set (sample_from g pool k) \<subseteq> set pool"
    by (rule set_mset_mono [of "mset (sample_from g pool k)" "mset pool", simplified])
  ultimately show ?thesis by blast
qed

text \<open>
  Claim C4. The candidate pool is the menu items of all stores, in store order and then
  item order; the interest set is the union of the customer's \<open>favorite_food\<close> and of
  the ingredients of every receipt stored under the customer's id; the matching items
  are the items of the pool with an ingredient in the interest set; the sort key of an
  item is the number of elements of the interest set among its ingredients. With an
  empty pool the result is empty. With a match, the result is the first three (or
  all, if fewer) of the matching items rearranged in descending key order, items of
  equal key keeping their pool order. Without a match, the result is a sample of the
  pool without replacement, of size the minimum of the pool size and a draw in 1..3: at
  least one and at most three items, all of the pool. No branch raises. That the sample
  is uniform is a property of the random source and is not stated.
\<close>

theorem get_recommendations_ranked_or_sampled:
  "all_menu_items s = concat (map menu_items (stores s))
   \<and> customer_ingredients c s =
       set (favorite_food c) \<union>
       (\<Union>r\<in>set (case map_of (receipts s) (customer_id c) of None \<Rightarrow> [] | Some rs \<Rightarrow> rs).
          set (receipt.ingredients r))
   \<and> matching_items (customer_ingredients c s) (all_menu_items s) =
       filter (\<lambda>x. customer_ingredients c s \<inter> set (menu_item.ingredients x) \<noteq> {})
         (all_menu_items s)
   \<and> match_count (customer_ingredients c s) x =
       card (customer_ingredients c s \<inter> set (menu_item.ingredients x))
   \<and> (all_menu_items s = [] \<longrightarrow> get_recommendations rnd c s = Inr [])
   \<and> (all_menu_items s \<noteq> []
        \<and> matching_items (customer_ingredients c s) (all_menu_items s) \<noteq> [] \<longrightarrow>
        (\<exists>ranked.
           get_recommendations rnd c s = Inr (take 3 ranked)
           \<and> length (take 3 ranked) =
               min 3 (length (matching_items (customer_ingredients c s) (all_menu_items s)))
           \<and> mset ranked = mset (matching_items (customer_ingredients c s) (all_menu_items s))
           \<and> sorted_wrt (\<lambda>a b. match_count (customer_ingredients c s) b
                                  \<le> match_count (customer_ingredients c s) a) ranked
           \<and> (\<forall>k. filter (\<lambda>y. match_count (customer_ingredients c s) y = k) ranked =
                    filter (\<lambda>y. match_count (customer_ingredients c s) y = k)
                      (matching_items (customer_ingredients c s) (all_menu_items s)))))
   \<and> (all_menu_items s \<noteq> []
        \<and> matching_items (customer_ingredients c s) (all_menu_items s) = [] \<longrightarrow>
        (\<exists>picked.
           get_recommendations rnd c s = Inr picked
           \<and> length picked = min (length (all_menu_items s)) (randint 1 3 (ints rnd 0))
           \<and> 1 \<le> length picked \<and> length picked \<le> min 3 (length (all_menu_items s))
           \<and> set picked \<subseteq> set (all_menu_items s)
           \<and> mset picked \<subseteq># mset (all_menu_items s)))"
proof -
  define pool where "pool = all_menu_items s"
  define S where "S = customer_ingredients c s"
  define matching where "matching = matching_items S pool"
  have empty: "get_recommendations rnd c s = Inr []" if "pool = []"
    using that by (simp add: get_recommendations_def pool_def)
  have ranked: "\<exists>ranked.
           get_recommendations rnd c s = Inr (take 3 ranked)
           \<and> length (take 3 ranked) = min 3 (length matching)
           \<and> mset ranked = mset matching
           \<and> sorted_wrt (\<lambda>a b. match_count S b \<le> match_count S a) ranked
           \<and> (\<forall>k. filter (\<lambda>y. match_count S y = k) ranked =
                    filter (\<lambda>y. match_count S y = k) matching)"
    if "pool \<noteq> []" "matching \<noteq> []"
  proof -
    from that have "get_recommendations rnd c s = Inr (take 3 (sort_reverse (match_count S) matching))"
      by (simp add: get_recommendations_def pool_def S_def matching_def Let_def)
    moreover have "length (take 3 (sort_reverse (match_count S) matching)) = min 3 (length matching)"
      using mset_sort_reverse [of "match_count S" matching, THEN arg_cong [where f = size]]
      by simp
    ultimately show ?thesis
      using mset_sort_reverse sorted_sort_reverse stable_sort_reverse by blast
  qed
  have sampled: "\<exists>picked.
           get_recommendations rnd c s = Inr picked
           \<and> length picked = min (length pool) (randint 1 3 (ints rnd 0))
           \<and> 1 \<le> length picked \<and> length picked \<le> min 3 (length pool)
           \<and> set picked \<subseteq> set pool
           \<and> mset picked \<subseteq># mset pool"
    if "pool \<noteq> []" "matching = []"
  proof -
    define n where "n = min (length pool) (randint 1 3 (ints rnd 0))"
    from that have run: "get_recommendations rnd c s = random_sample (\<lambda>i. ints rnd (Suc i)) pool n"
      by (simp add: get_recommendations_def pool_def S_def matching_def Let_def n_def)
    have "n \<le> length pool" by (simp add: n_def)
    from random_sample_ok [OF this, of "\<lambda>i. ints rnd (Suc i)"] obtain picked where
      p: "random_sample (\<lambda>i. ints rnd (Suc i)) pool n = Inr picked" "length picked = n"
         "mset picked \<subseteq># mset pool" "set picked \<subseteq> set pool"
      by blast
    from that(1) have "1 \<le> length pool" by (cases pool) simp_all
    with randint_bounds [of 1 3 "ints rnd 0"] have "1 \<le> n \<and> n \<le> min 3 (length pool)"
      unfolding n_def by linarith
    with p run show ?thesis unfolding n_def [symmetric] by auto
  qed
  show ?thesis
    using all_menu_items_concat [of s] customer_ingredients_union [of c s]
      matching_items_filter [of S pool]
      match_count_card [OF finite_customer_ingredients, of c s x]
      empty ranked sampled
    unfolding pool_def S_def matching_def
    by (intro conjI impI) blast+
qed

theorem get_recommendations_ranked_or_sampled_witness:
  "all_menu_items one_customer = []
   \<and> get_recommendations demo_rand alice one_customer = Inr []
   \<and> all_menu_items shop = [fruit_salad, cheese_toast, milk_shake, cheese_omelette]
   \<and> matching_items (customer_ingredients alice shop) (all_menu_items shop)
        = [cheese_toast, milk_shake, cheese_omelette]
   \<and> get_recommendations demo_rand alice shop = Inr [cheese_omelette, cheese_toast, milk_shake]
   \<and> (\<exists>ranked. get_recommendations demo_rand alice shop = Inr (take 3 ranked)
          \<and> mset ranked = mset [cheese_toast, milk_shake, cheese_omelette])
   \<and> matching_items (customer_ingredients bob shop) (all_menu_items shop) = []
   \<and> get_recommendations demo_rand_two bob shop = Inr [milk_shake, fruit_salad]
   \<and> (\<exists>picked. get_recommendations demo_rand_two bob shop = Inr picked
          \<and> 1 \<le> length picked \<and> length picked \<le> 3
          \<and> set picked \<subseteq> set [fruit_salad, cheese_toast, milk_shake, cheese_omelette])"
proof -
  have e1: "all_menu_items one_customer = []"
    by code_simp
  have e2: "all_menu_items shop = [fruit_salad, cheese_toast, milk_shake, cheese_omelette]"
    by code_simp
  have e3: "matching_items (customer_ingredients alice shop) (all_menu_items shop)
              = [cheese_toast, milk_shake, cheese_omelette]"
    by code_simp
  have e4: "get_recommendations demo_rand alice shop = Inr [cheese_omelette, cheese_toast, milk_shake]"
    by code_simp
  have e5: "matching_items (customer_ingredients bob shop) (all_menu_items shop) = []"
    by code_simp
  have e6: "get_recommendations demo_rand_two bob shop = Inr [milk_shake, fruit_salad]"
    by code_simp
  note T1 = get_recommendations_ranked_or_sampled [of one_customer alice fruit_salad demo_rand]
  note T2 = get_recommendations_ranked_or_sampled [of shop alice fruit_salad demo_rand]
  note T3 = get_recommendations_ranked_or_sampled [of shop bob fruit_salad demo_rand_two]
  from T1 e1 have r1: "get_recommendations demo_rand alice one_customer = Inr []"
    by blast
  have ne: "all_menu_items shop \<noteq> []"
    by (simp add: e2)
  from T2 [THEN conjunct2, THEN conjunct2, THEN conjunct2, THEN conjunct2, THEN conjunct2,
           THEN conjunct1] ne e3
  have r2: "\<exists>ranked. get_recommendations demo_rand alice shop = Inr (take 3 ranked)
          \<and> mset ranked = mset [cheese_toast, milk_shake, cheese_omelette]"
    by auto
  from T3 [THEN conjunct2, THEN conjunct2, THEN conjunct2, THEN conjunct2, THEN conjunct2,
           THEN conjunct2] ne e5
  have r3: "\<exists>picked. get_recommendations demo_rand_two bob shop = Inr picked
          \<and> 1 \<le> length picked \<and> length picked \<le> 3
          \<and> set picked \<subseteq> set (all_menu_items shop)"
    by auto
  from e1 r1 e2 e3 e4 r2 e5 e6 r3 [unfolded e2] show ?thesis
    by (intro conjI)
qed

subsection \<open>Snapshots\<close>

lemma ebind_Inr: "ebind (Inr x) f = f x"
  by (simp add: ebind_def)

lemma ebind_Inl: "ebind (Inl e) f = Inl e"
  by (simp add: ebind_def)

lemma emap_map:
  "(\<And>x. x \<in> set xs \<Longrightarrow> f (g x) = Inr (h x)) \<Longrightarrow> emap f (map g xs) = Inr (map h xs)"
  by (induction xs) (simp_all add: ebind_def)

lemma as_str_list_strings: "as_str_list (PyList (map PyStr xs)) = Inr xs"
  using emap_map [of xs as_str PyStr "\<lambda>x. x"] by (simp add: as_str_list_def as_str_def)

lemma demo_lib_contract: "library_contract demo_lib"
proof -
  have "map (\<lambda>c. (of_nat (of_char c :: nat) :: byte)) (map (\<lambda>w. char_of (unat w)) b) = b"
    for b :: "byte list"
  proof -
    have "(of_nat (of_char (char_of (unat w) :: char) :: nat) :: byte) = w" for w :: byte
    proof -
      have "unat w < 256" using unsigned_less [of w, where ?'a = nat] by simp
      then show ?thesis by simp
    qed
    then show ?thesis by (simp add: comp_def)
  qed
  then show ?thesis
    by (simp add: library_contract_def demo_lib_def)
qed

lemma Customer_round_trip:
  assumes "library_contract L"
  shows "Customer_from_dict L (Customer_to_dict L c) = Inr c"
proof -
  from assms have iso: "fromisoformat L (isoformat L d) = Some d" "isoformat L d \<noteq> []" for d
    by (simp_all add: library_contract_def)
  have opt: "as_opt_str (opt_str v) = Inr v" for v
    by (cases v) (simp_all add: as_opt_str_def opt_str_def)
  have login: "(if truthy (get (Customer_to_dict L c) ''last_login'')
            then ebind (ebind (getitem (Customer_to_dict L c) ''last_login'') (parse_datetime L))
                   (\<lambda>d. Inr (Some d))
            else Inr None) = Inr (last_login c)"
    by (cases "last_login c")
       (simp_all add: Customer_to_dict_def get_def get_default_def getitem_def ebind_def
          parse_datetime_def iso)
  show ?thesis
    unfolding Customer_from_dict_def login
    by (simp add: Customer_to_dict_def get_def get_default_def getitem_def ebind_def
          parse_datetime_def iso as_str_def as_str_list_strings opt)
qed

lemma Receipt_round_trip:
  assumes "library_contract L"
  shows "Receipt_from_dict L (Receipt_to_dict L r) = Inr (read_back_receipt r)"
proof -
  from assms have iso: "fromisoformat L (isoformat L d) = Some d" for d
    by (simp add: library_contract_def)
  from assms have b64: "b64decode L (b64encode L b) = Some b" for b
    by (simp add: library_contract_def)
  from assms have b64ne: "b \<noteq> [] \<Longrightarrow> b64encode L b \<noteq> []" for b
    by (simp add: library_contract_def)
  have image: "(if truthy (get (Receipt_to_dict L r) ''image_data'')
            then ebind (ebind (getitem (Receipt_to_dict L r) ''image_data'') (decode_bytes L))
                   (\<lambda>b. Inr (Some b))
            else Inr None) = Inr (image_data (read_back_receipt r))"
  proof (cases "image_data r")
    case None
    then show ?thesis
      by (simp add: Receipt_to_dict_def get_def get_default_def read_back_receipt_def)
  next
    case (Some b)
    then show ?thesis
      by (cases "b = []")
         (simp_all add: Receipt_to_dict_def get_def get_default_def getitem_def ebind_def
            decode_bytes_def b64 b64ne read_back_receipt_def)
  qed
  have rest: "read_back_receipt r = r\<lparr>image_data := image_data (read_back_receipt r)\<rparr>"
    by (simp add: read_back_receipt_def)
  show ?thesis
    unfolding Receipt_from_dict_def image
    by (subst (2) rest)
       (simp add: Receipt_to_dict_def getitem_def ebind_def
          parse_datetime_def iso as_str_def as_str_list_strings as_int_def)
qed

lemma MenuItem_round_trip: "MenuItem_from_dict (MenuItem_to_dict item) = Inr item"
  by (simp add: MenuItem_from_dict_def MenuItem_to_dict_def getitem_def ebind_def
        as_str_def as_str_list_strings as_float_def)

lemma Store_round_trip: "Store_from_dict (Store_to_dict st) = Inr st"
proof -
  have items: "emap (\<lambda>item. ebind (as_dict item) MenuItem_from_dict)
                 (map (\<lambda>item. PyDict (MenuItem_to_dict item)) (menu_items st))
               = Inr (map (\<lambda>item. item) (menu_items st))"
    by (rule emap_map) (simp add: as_dict_def ebind_Inr MenuItem_round_trip)
  show ?thesis
    by (simp add: Store_from_dict_def Store_to_dict_def getitem_def ebind_Inr
          as_str_def iterate_def items)
qed

lemma load_stores_snapshot:
  "load_stores (map (\<lambda>st. PyDict (Store_to_dict st)) sts) sys
     = Inr (sys\<lparr>stores := stores sys @ sts\<rparr>)"
  by (induction sts arbitrary: sys) (simp_all add: as_dict_def ebind_Inr Store_round_trip)

lemma load_customers_snapshot:
  "library_contract L \<Longrightarrow>
     load_customers L (map (\<lambda>c. PyDict (Customer_to_dict L c)) cs) sys
       = Inr (sys\<lparr>customers := customers sys @ cs\<rparr>)"
  by (induction cs arbitrary: sys) (simp_all add: as_dict_def ebind_Inr Customer_round_trip)

lemma update_new_key: "k \<notin> fst ` set al \<Longrightarrow> AList.update k v al = al @ [(k, v)]"
  by (induction al) auto

lemma load_receipts_snapshot:
  assumes "library_contract L"
  shows "distinct (map fst al) \<Longrightarrow> fst ` set al \<inter> fst ` set (receipts sys) = {} \<Longrightarrow>
     load_receipts L
       (map (\<lambda>(cid, rs). (cid, PyList (map (\<lambda>r. PyDict (Receipt_to_dict L r)) rs))) al) sys
       = Inr (sys\<lparr>receipts := receipts sys
                 @ map (\<lambda>(cid, rs). (cid, map read_back_receipt rs)) al\<rparr>)"
proof (induction al arbitrary: sys)
  case Nil
  then show ?case by simp
next
  case (Cons entry al)
  obtain cid rs where entry: "entry = (cid, rs)" by (cases entry)
  have items: "emap (\<lambda>r. ebind (as_dict r) (Receipt_from_dict L))
                 (map (\<lambda>r. PyDict (Receipt_to_dict L r)) rs)
               = Inr (map read_back_receipt rs)"
    by (rule emap_map) (simp add: as_dict_def ebind_Inr Receipt_round_trip [OF assms])
  from Cons.prems entry have new: "cid \<notin> fst ` set (receipts sys)"
    by auto
  define sys' where
    "sys' = sys\<lparr>receipts := AList.update cid (map read_back_receipt rs) (receipts sys)\<rparr>"
  have r': "receipts sys' = receipts sys @ [(cid, map read_back_receipt rs)]"
    by (simp add: sys'_def update_new_key [OF new])
  from Cons.prems entry have "distinct (map fst al)"
    and "fst ` set al \<inter> fst ` set (receipts sys') = {}"
    by (auto simp: r')
  then have "load_receipts L
       (map (\<lambda>(cid, rs). (cid, PyList (map (\<lambda>r. PyDict (Receipt_to_dict L r)) rs))) al) sys'
       = Inr (sys'\<lparr>receipts := receipts sys'
                 @ map (\<lambda>(cid, rs). (cid, map read_back_receipt rs)) al\<rparr>)"
    by (rule Cons.IH)
  then show ?case
    by (simp add: entry iterate_def ebind_Inr items sys'_def [symmetric] r') (simp add: sys'_def)
qed

lemma snapshot_read_back:
  assumes "library_contract L" and "distinct (map fst (receipts s))"
  shows "ReceiptSystem_from_dict L (ReceiptSystem_to_dict L s) = Inr (read_back s)"
proof -
  have "load_receipts L
       (map (\<lambda>(cid, rs). (cid, PyList (map (\<lambda>r. PyDict (Receipt_to_dict L r)) rs))) (receipts s))
       (ReceiptSystem_init\<lparr>stores := stores s, customers := customers s\<rparr>)
       = Inr (ReceiptSystem_init\<lparr>stores := stores s, customers := customers s,
               receipts := map (\<lambda>(cid, rs). (cid, map read_back_receipt rs)) (receipts s)\<rparr>)"
    using load_receipts_snapshot [OF assms(1), of "receipts s"
            "ReceiptSystem_init\<lparr>stores := stores s, customers := customers s\<rparr>"] assms(2)
    by (simp add: ReceiptSystem_init_def)
  then show ?thesis
    by (simp add: ReceiptSystem_from_dict_def ReceiptSystem_to_dict_def get_default_def
          iterate_def as_dict_def ebind_Inr load_stores_snapshot
          load_customers_snapshot [OF assms(1)] ReceiptSystem_init_def read_back_def)
qed
text \<open>
  Claim C1, amended. Let the library print and parse timestamps and base64 text
  inversely (\<open>library_contract\<close>) and let the receipt mapping have each key once, as a
  dictionary has. Then \<open>from_dict (to_dict system)\<close> returns normally, with the customer
  list, the store list and the keys of the receipt mapping of the original, and with
  the receipts of the original except that an \<open>image_data\<close> that is the empty byte
  string is read back as \<open>None\<close>. It is the original system when no stored receipt
  has the empty byte string as \<open>image_data\<close>.
\<close>

theorem snapshot_round_trip:
  assumes "library_contract L" and "distinct (map fst (receipts s))"
  shows "ReceiptSystem_from_dict L (ReceiptSystem_to_dict L s) = Inr (read_back s)
    \<and> customers (read_back s) = customers s
    \<and> stores (read_back s) = stores s
    \<and> map fst (receipts (read_back s)) = map fst (receipts s)
    \<and> ((\<forall>entry\<in>set (receipts s). \<forall>r\<in>set (snd entry). image_data r \<noteq> Some []) \<longrightarrow>
          read_back s = s
          \<and> ReceiptSystem_from_dict L (ReceiptSystem_to_dict L s) = Inr s)"
proof -
  have rb: "ReceiptSystem_from_dict L (ReceiptSystem_to_dict L s) = Inr (read_back s)"
    using assms by (rule snapshot_read_back)
  have same: "read_back s = s"
    if "\<forall>entry\<in>set (receipts s). \<forall>r\<in>set (snd entry). image_data r \<noteq> Some []"
  proof -
    have "map (\<lambda>(cid, rs). (cid, map read_back_receipt rs)) (receipts s) = map (\<lambda>e. e) (receipts s)"
    proof (rule map_cong [OF refl])
      fix entry assume e: "entry \<in> set (receipts s)"
      with that have "\<forall>r\<in>set (snd entry). image_data r \<noteq> Some []" by blast
      then have "map read_back_receipt (snd entry) = map (\<lambda>r. r) (snd entry)"
        by (intro map_cong [OF refl]) (simp add: read_back_receipt_def)
      then show "(case entry of (cid, rs) \<Rightarrow> (cid, map read_back_receipt rs)) = entry"
        by (cases entry) simp
    qed
    then show ?thesis by (simp add: read_back_def)
  qed
  have keys: "map fst (receipts (read_back s)) = map fst (receipts s)"
    by (simp add: read_back_def comp_def split_beta)
  from rb same keys show ?thesis
    by (simp add: read_back_def)
qed

theorem snapshot_round_trip_witness:
  "library_contract demo_lib
   \<and> distinct (map fst (receipts populated))
   \<and> image_data dairy_receipt = Some [1, 2, 3] \<and> image_data demo_receipt = None
   \<and> receipts populated = [(''c1'', [dairy_receipt, demo_receipt]), (''c9'', [])]
   \<and> ReceiptSystem_from_dict demo_lib (ReceiptSystem_to_dict demo_lib populated) = Inr populated"
proof -
  have d: "distinct (map fst (receipts populated))"
    by (simp add: populated_def)
  have i: "image_data dairy_receipt = Some [1, 2, 3]" "image_data demo_receipt = None"
    by (simp_all add: dairy_receipt_def demo_receipt_def)
  have r: "receipts populated = [(''c1'', [dairy_receipt, demo_receipt]), (''c9'', [])]"
    by (simp add: populated_def)
  have "\<forall>entry\<in>set (receipts populated). \<forall>r\<in>set (snd entry). image_data r \<noteq> Some []"
    by (simp add: r i)
  with snapshot_round_trip [OF demo_lib_contract d]
  have "ReceiptSystem_from_dict demo_lib (ReceiptSystem_to_dict demo_lib populated) = Inr populated"
    by blast
  with demo_lib_contract d i r show ?thesis by (intro conjI)
qed

theorem snapshot_round_trip_counterexample:
  "image_data blank_image_receipt = Some []
   \<and> receipts blank_image_system = [(''c1'', [blank_image_receipt])]
   \<and> ReceiptSystem_from_dict demo_lib (ReceiptSystem_to_dict demo_lib blank_image_system)
       = Inr (blank_image_system
                \<lparr>receipts := [(''c1'', [blank_image_receipt\<lparr>image_data := None\<rparr>])]\<rparr>)
   \<and> ReceiptSystem_from_dict demo_lib (ReceiptSystem_to_dict demo_lib blank_image_system)
       \<noteq> Inr blank_image_system"
proof -
  have d: "distinct (map fst (receipts blank_image_system))"
    by (simp add: blank_image_system_def)
  have i: "image_data blank_image_receipt = Some []"
    by (simp add: blank_image_receipt_def)
  have r: "receipts blank_image_system = [(''c1'', [blank_image_receipt])]"
    by (simp add: blank_image_system_def)
  have rb: "read_back blank_image_system =
      blank_image_system\<lparr>receipts := [(''c1'', [blank_image_receipt\<lparr>image_data := None\<rparr>])]\<rparr>"
    by (simp add: read_back_def r read_back_receipt_def i)
  have neq: "blank_image_system\<lparr>receipts := [(''c1'', [blank_image_receipt\<lparr>image_data := None\<rparr>])]\<rparr>
               \<noteq> blank_image_system"
  proof
    assume "blank_image_system\<lparr>receipts := [(''c1'', [blank_image_receipt\<lparr>image_data := None\<rparr>])]\<rparr>
               = blank_image_system"
    then have "receipts (blank_image_system\<lparr>receipts := [(''c1'', [blank_image_receipt\<lparr>image_data := None\<rparr>])]\<rparr>)
               = receipts blank_image_system"
      by (rule arg_cong)
    then have "blank_image_receipt\<lparr>image_data := None\<rparr> = blank_image_receipt"
      by (simp add: r)
    then have "image_data (blank_image_receipt\<lparr>image_data := None\<rparr>) = image_data blank_image_receipt"
      by (rule arg_cong)
    with i show False by simp
  qed
  from snapshot_read_back [OF demo_lib_contract d] rb neq i r show ?thesis
    by simp
qed

subsection \<open>Registered customers and the receipt mapping\<close>

lemma replace_customer_ids:
  "customer_id ` set (snd (replace_customer c cs)) = customer_id ` set cs"
  by (induction cs) (auto simp: split_beta)

lemma load_stores_frame:
  "load_stores xs sys = Inr sys' \<Longrightarrow>
     customers sys' = customers sys \<and> receipts sys' = receipts sys"
proof (induction xs arbitrary: sys)
  case Nil
  then show ?case by simp
next
  case (Cons x xs)
  from Cons.prems obtain st where
    "load_stores xs (sys\<lparr>stores := stores sys @ [st]\<rparr>) = Inr sys'"
    by (auto simp: ebind_def split: sum.splits)
  from Cons.IH [OF this] show ?case by simp
qed

lemma load_customers_frame:
  "load_customers L xs sys = Inr sys' \<Longrightarrow> receipts sys' = receipts sys"
proof (induction xs arbitrary: sys)
  case Nil
  then show ?case by simp
next
  case (Cons x xs)
  from Cons.prems obtain c where
    "load_customers L xs (sys\<lparr>customers := customers sys @ [c]\<rparr>) = Inr sys'"
    by (auto simp: ebind_def split: sum.splits)
  from Cons.IH [OF this] show ?case by simp
qed

lemma load_receipts_keys:
  "load_receipts L d sys = Inr sys' \<Longrightarrow>
     customers sys' = customers sys
     \<and> fst ` set (receipts sys') = fst ` set (receipts sys) \<union> fst ` set d"
proof (induction d arbitrary: sys)
  case Nil
  then show ?case by simp
next
  case (Cons entry d)
  obtain cid v where entry: "entry = (cid, v)" by (cases entry)
  from Cons.prems entry obtain rs where
    "load_receipts L d (sys\<lparr>receipts := AList.update cid rs (receipts sys)\<rparr>) = Inr sys'"
    by (auto simp: ebind_def split: sum.splits)
  from Cons.IH [OF this] entry show ?case
    by (auto simp: dom_update)
qed

lemma from_dict_keys:
  assumes "ReceiptSystem_from_dict L data = Inr s'"
  shows "fst ` set (receipts s') =
           fst ` set (case get_default data ''receipts'' (PyDict []) of PyDict d \<Rightarrow> d | _ \<Rightarrow> [])"
proof -
  from assms obtain stores_data sys1 customers_data sys2 d where
    steps: "load_stores stores_data ReceiptSystem_init = Inr sys1"
      "load_customers L customers_data sys1 = Inr sys2"
      "as_dict (get_default data ''receipts'' (PyDict [])) = Inr d"
      "load_receipts L d sys2 = Inr s'"
    unfolding ReceiptSystem_from_dict_def
    by (auto simp: ebind_def split: sum.splits)
  from steps(3) have d: "get_default data ''receipts'' (PyDict []) = PyDict d"
    by (auto simp: as_dict_def split: pyval.splits)
  from load_stores_frame [OF steps(1)] load_customers_frame [OF steps(2)]
  have "receipts sys2 = []"
    by (simp add: ReceiptSystem_init_def)
  with load_receipts_keys [OF steps(4)] show ?thesis
    by (simp add: d)
qed

text \<open>
  Claim C9, amended. Every registered customer's id is a key of the receipt mapping:
  this holds of the empty system, a successful \<open>register_customer\<close> makes the new id a
  key with the empty list, and \<open>register_customer\<close>, \<open>update_customer\<close>, \<open>add_store\<close>,
  \<open>process_receipt\<close> and \<open>authenticate_customer\<close> preserve it. \<open>from_dict\<close> checks
  nothing across the customer list and the receipt dictionary of a snapshot: the system
  it builds has the property exactly when the id of every customer it loaded is a key
  of the snapshot's receipt dictionary, as is the case for the snapshot \<open>to_dict\<close> makes
  of a system that has the property.
\<close>

theorem registered_have_entry_kept:
  "registered_have_entry (ReceiptSystem_init :: ('dt, 'r) receipt_system_of)
   \<and> (registered_have_entry s \<longrightarrow> registered_have_entry (snd (register_customer c s)))
   \<and> (fst (register_customer c s) = None \<longrightarrow>
        map_of (receipts (snd (register_customer c s))) (customer_id c) = Some [])
   \<and> (registered_have_entry s \<longrightarrow> registered_have_entry (snd (update_customer c s)))
   \<and> (registered_have_entry s \<longrightarrow> registered_have_entry (snd (add_store st s)))
   \<and> (registered_have_entry sh \<longrightarrow>
        (\<exists>h' sh'. process_receipt L rnd a arg h sh = Inr (h', sh') \<and> registered_have_entry sh'))
   \<and> (registered_have_entry s \<longrightarrow>
        registered_have_entry (snd (authenticate_customer L now e p s)))
   \<and> (library_contract L \<and> distinct (map fst (receipts sv)) \<and> registered_have_entry sv \<longrightarrow>
        (\<exists>s'. ReceiptSystem_from_dict L (ReceiptSystem_to_dict L sv) = Inr s'
           \<and> registered_have_entry s'))
   \<and> (\<forall>s'. ReceiptSystem_from_dict L data = Inr s' \<longrightarrow>
        (registered_have_entry s' \<longleftrightarrow>
           (\<forall>c'\<in>set (customers s').
              customer_id c' \<in> fst ` set (case get_default data ''receipts'' (PyDict []) of
                                             PyDict d \<Rightarrow> d | _ \<Rightarrow> []))))"
proof -
  have init: "registered_have_entry (ReceiptSystem_init :: ('dt, 'r) receipt_system_of)"
    by (simp add: registered_have_entry_def ReceiptSystem_init_def)
  have reg: "registered_have_entry (snd (register_customer c s))" if "registered_have_entry s"
    using that
    by (auto simp: registered_have_entry_def register_customer_def Let_def dom_update)
  have reg_new: "map_of (receipts (snd (register_customer c s))) (customer_id c) = Some []"
    if "fst (register_customer c s) = None"
    using that
    by (auto simp: register_customer_def Let_def update_conv' split: if_splits)
  have upd: "registered_have_entry (snd (update_customer c s))" if "registered_have_entry s"
  proof -
    have ids: "customer_id ` set (customers (snd (update_customer c s)))
                 = customer_id ` set (customers s)"
      and same: "receipts (snd (update_customer c s)) = receipts s"
      using replace_customer_ids [of c "customers s"]
      by (simp_all add: update_customer_def split_beta)
    show ?thesis
      unfolding registered_have_entry_def same
    proof
      fix c' assume "c' \<in> set (customers (snd (update_customer c s)))"
      then have "customer_id c' \<in> customer_id ` set (customers (snd (update_customer c s)))"
        by (rule imageI)
      then have "customer_id c' \<in> customer_id ` set (customers s)"
        unfolding ids .
      then obtain c0 where "c0 \<in> set (customers s)" "customer_id c' = customer_id c0"
        by auto
      with that show "customer_id c' \<in> fst ` set (receipts s)"
        by (simp add: registered_have_entry_def)
    qed
  qed
  have store: "registered_have_entry (snd (add_store st s))" if "registered_have_entry s"
    using that by (simp add: registered_have_entry_def add_store_def)
  have proc: "\<exists>h' sh'. process_receipt L rnd a arg h sh = Inr (h', sh') \<and> registered_have_entry sh'"
    if "registered_have_entry sh"
  proof -
    define out where "out = process_sampled L (uniform_2f rnd)
        (sample_from (\<lambda>i. ints rnd (Suc i)) sample_ingredients (randint 2 5 (ints rnd 0)))
        a arg h sh"
    have run: "process_receipt L rnd a arg h sh = Inr (fst out, snd out)"
      by (simp add: process_receipt_eq out_def)
    have "customers (snd out) = customers sh
            \<and> fst ` set (receipts (snd out)) = fst ` set (receipts sh)"
      unfolding out_def process_sampled_system
      by (cases arg) (simp_all add: dom_map_entry)
    with that have "registered_have_entry (snd out)"
      by (simp add: registered_have_entry_def)
    with run show ?thesis by blast
  qed
  have auth: "registered_have_entry (snd (authenticate_customer L now e p s))"
    if "registered_have_entry s"
  proof (cases "scan_email e (customers s)")
    case None
    with that show ?thesis by (simp add: authenticate_customer_def)
  next
    case (Some found)
    obtain i c0 where found: "found = (i, c0)" by (cases found)
    show ?thesis
    proof (cases "verify_password_str L p c0")
      case (Inl err)
      with Some found that show ?thesis by (simp add: authenticate_customer_def)
    next
      case (Inr verified)
      show ?thesis
      proof (cases verified)
        case False
        with Inr Some found that show ?thesis by (simp add: authenticate_customer_def)
      next
        case True
        from Some found scan_email_Some [of e "customers s" i c0]
        have i: "i < length (customers s)" "customers s ! i = c0" by simp_all
        have "set ((customers s)[i := record_login now c0])
                \<subseteq> insert (record_login now c0) (set (customers s))"
          by (rule set_update_subset_insert)
        moreover have "customer_id (record_login now c0) = customer_id c0"
          by (simp add: record_login_def)
        moreover from i have "c0 \<in> set (customers s)" by auto
        ultimately have "\<forall>c'\<in>set ((customers s)[i := record_login now c0]).
              customer_id c' \<in> fst ` set (receipts s)"
          using that unfolding registered_have_entry_def by auto
        with Some found Inr True show ?thesis
          by (simp add: authenticate_customer_def Let_def registered_have_entry_def)
      qed
    qed
  qed
  have snap: "\<exists>s'. ReceiptSystem_from_dict L (ReceiptSystem_to_dict L sv) = Inr s'
           \<and> registered_have_entry s'"
    if "library_contract L \<and> distinct (map fst (receipts sv)) \<and> registered_have_entry sv"
  proof -
    from that have "ReceiptSystem_from_dict L (ReceiptSystem_to_dict L sv) = Inr (read_back sv)"
      by (simp add: snapshot_read_back)
    moreover have "fst ` set (receipts (read_back sv)) = fst ` set (receipts sv)"
      by (force simp: read_back_def)
    with that have "registered_have_entry (read_back sv)"
      by (simp add: registered_have_entry_def read_back_def)
    ultimately show ?thesis by blast
  qed
  have load: "registered_have_entry s' \<longleftrightarrow>
           (\<forall>c'\<in>set (customers s').
              customer_id c' \<in> fst ` set (case get_default data ''receipts'' (PyDict []) of
                                             PyDict d \<Rightarrow> d | _ \<Rightarrow> []))"
    if "ReceiptSystem_from_dict L data = Inr s'" for s'
    unfolding registered_have_entry_def from_dict_keys [OF that] ..
  from init reg reg_new upd store proc auth snap load show ?thesis
    by (intro conjI impI allI)
qed

theorem registered_have_entry_kept_witness:
  "registered_have_entry one_customer
   \<and> registered_have_entry (snd (register_customer bob one_customer))
   \<and> fst (register_customer bob one_customer) = None
   \<and> map_of (receipts (snd (register_customer bob one_customer))) (customer_id bob) = Some []
   \<and> registered_have_entry (snd (update_customer alice_with_password one_customer))
   \<and> registered_have_entry (snd (add_store corner_store one_customer))
   \<and> registered_have_entry one_customer_shared
   \<and> (\<exists>h' s'. process_receipt demo_lib demo_rand 0 (Some ''c1'') demo_heap one_customer_shared
                   = Inr (h', s') \<and> registered_have_entry s')
   \<and> registered_have_entry
        (snd (authenticate_customer demo_lib 20 ''alice@example.com'' password_p1 one_customer))
   \<and> library_contract demo_lib
   \<and> distinct (map fst (receipts one_customer))
   \<and> ReceiptSystem_from_dict demo_lib (ReceiptSystem_to_dict demo_lib one_customer)
        = Inr one_customer
   \<and> (\<exists>s'. ReceiptSystem_from_dict demo_lib (ReceiptSystem_to_dict demo_lib one_customer) = Inr s'
          \<and> registered_have_entry s')
   \<and> customers one_customer = [alice]
   \<and> customer_id alice \<in>
        fst ` set (case get_default (ReceiptSystem_to_dict demo_lib one_customer) ''receipts''
                          (PyDict []) of PyDict d \<Rightarrow> d | _ \<Rightarrow> [])"
proof -
  note T = registered_have_entry_kept [where s = one_customer and c = bob
      and st = corner_store and L = demo_lib and rnd = demo_rand and a = 0
      and arg = "Some ''c1''" and h = demo_heap and sh = one_customer_shared and now = 20
      and e = "''alice@example.com''" and p = password_p1 and sv = one_customer
      and data = "ReceiptSystem_to_dict demo_lib one_customer"]
  note U = registered_have_entry_kept [where s = one_customer and c = alice_with_password
      and st = corner_store and L = demo_lib and rnd = demo_rand and a = 0
      and arg = "Some ''c1''" and h = demo_heap and sh = one_customer_shared and now = 20
      and e = "''alice@example.com''" and p = password_p1 and sv = one_customer
      and data = "ReceiptSystem_to_dict demo_lib one_customer"]
  have inv: "registered_have_entry one_customer"
    by (simp add: registered_have_entry_def one_customer_eq alice_def)
  have invh: "registered_have_entry one_customer_shared"
    by (simp add: registered_have_entry_def one_customer_shared_eq alice_def)
  have new: "fst (register_customer bob one_customer) = None"
    by (simp add: register_customer_def one_customer_eq alice_def bob_def)
  have d: "distinct (map fst (receipts one_customer))"
    by (simp add: one_customer_eq)
  have same: "read_back one_customer = one_customer"
    by (simp add: read_back_def one_customer_eq)
  have load: "ReceiptSystem_from_dict demo_lib (ReceiptSystem_to_dict demo_lib one_customer)
        = Inr one_customer"
    using snapshot_read_back [OF demo_lib_contract d] by (simp add: same)
  from T inv have t2: "registered_have_entry (snd (register_customer bob one_customer))"
    by blast
  from T new have t3: "map_of (receipts (snd (register_customer bob one_customer))) (customer_id bob) = Some []"
    by blast
  from U inv have t4: "registered_have_entry (snd (update_customer alice_with_password one_customer))"
    by blast
  from T inv have t5: "registered_have_entry (snd (add_store corner_store one_customer))"
    by blast
  from T invh have t6: "\<exists>h' s'. process_receipt demo_lib demo_rand 0 (Some ''c1'') demo_heap
                   one_customer_shared = Inr (h', s') \<and> registered_have_entry s'"
    by blast
  from T inv have t7: "registered_have_entry
        (snd (authenticate_customer demo_lib 20 ''alice@example.com'' password_p1 one_customer))"
    by blast
  from T inv d demo_lib_contract
  have t8: "\<exists>s'. ReceiptSystem_from_dict demo_lib (ReceiptSystem_to_dict demo_lib one_customer) = Inr s'
          \<and> registered_have_entry s'"
    by blast
  have cs: "customers one_customer = [alice]"
    by (simp add: one_customer_eq)
  from T load inv
  have "\<forall>c'\<in>set (customers one_customer). customer_id c' \<in>
        fst ` set (case get_default (ReceiptSystem_to_dict demo_lib one_customer) ''receipts''
                          (PyDict []) of PyDict d \<Rightarrow> d | _ \<Rightarrow> [])"
    by blast
  then have t9: "customer_id alice \<in>
        fst ` set (case get_default (ReceiptSystem_to_dict demo_lib one_customer) ''receipts''
                          (PyDict []) of PyDict d \<Rightarrow> d | _ \<Rightarrow> [])"
    unfolding cs by simp
  from inv t2 new t3 t4 t5 invh t6 t7 demo_lib_contract d load t8 cs t9 show ?thesis
    by (intro conjI)
qed

theorem registered_have_entry_kept_counterexample:
  "ReceiptSystem_from_dict demo_lib orphan_snapshot
     = Inr \<lparr>customers = [alice], stores = [], receipts = []\<rparr>
   \<and> \<not> registered_have_entry \<lparr>customers = [alice], stores = [], receipts = ([] :: (string \<times> nat receipt list) list)\<rparr>"
proof -
  have "ReceiptSystem_from_dict demo_lib orphan_snapshot
     = Inr \<lparr>customers = [alice], stores = [], receipts = []\<rparr>"
    by (simp add: ReceiptSystem_from_dict_def orphan_snapshot_def get_default_def iterate_def
          ebind_Inr as_dict_def Customer_round_trip [OF demo_lib_contract] ReceiptSystem_init_def)
  moreover have "\<not> registered_have_entry \<lparr>customers = [alice], stores = [],
        receipts = ([] :: (string \<times> nat receipt list) list)\<rparr>"
    by (simp add: registered_have_entry_def)
  ultimately show ?thesis by (intro conjI)
qed

end
